theory Spec2Isabelle
  imports Complex_Main
begin

section \<open>Values shared by the backend modules\<close>

text \<open>
  Python floats are read as real numbers. \<open>round(x, 2)\<close> rounds to two decimals, ties to
  the even neighbour; \<open>round2\<close> is that function on the reals.
\<close>

definition round_half_even :: "real \<Rightarrow> int" where
  "round_half_even x =
     (let f = \<lfloor>x\<rfloor>; d = x - of_int f
      in if d < 1 / 2 then f
         else if 1 / 2 < d then f + 1
         else if even f then f else f + 1)"

definition round2 :: "real \<Rightarrow> real" where
  "round2 x = of_int (round_half_even (x * 100)) / 100"

text \<open>
  Values that arrive from JSON or from a caller without a check of their type: \<open>None\<close>,
  booleans, \<open>int\<close>, \<open>float\<close>, \<open>str\<close>, lists, and dictionaries as association lists
  in insertion order.
\<close>

datatype json =
    JNull
  | JBool bool
  | JInt int
  | JFloat real
  | JStr string
  | JArr "json list"
  | JObj "(string \<times> json) list"

text \<open>
  The number a value stands for in arithmetic and in comparisons with a float (\<open>True\<close> is
  1, \<open>False\<close> is 0); \<open>None\<close> where Python raises \<open>TypeError\<close>.
\<close>

fun num_val :: "json \<Rightarrow> real option" where
  "num_val (JInt n) = Some (of_int n)"
| "num_val (JFloat x) = Some x"
| "num_val (JBool b) = Some (if b then 1 else 0)"
| "num_val JNull = None"
| "num_val (JStr s) = None"
| "num_val (JArr xs) = None"
| "num_val (JObj kvs) = None"

datatype exn =
    ImportError
  | ValueError
  | AttributeError
  | TypeError
  | OverflowError
  | UnboundLocalError
  | BaseException string
  | KeyError string
  | StrictModeError

text \<open>
  A Python string is the list of its code points. The model has the strings whose code
  points are below 256, one \<^typ>\<open>char\<close> for each code point.

  \<open>str.lower()\<close>: among these code points the upper-case letters are \<open>A\<close> to \<open>Z\<close>,
  \<open>0xC0\<close> to \<open>0xD6\<close> and \<open>0xD8\<close> to \<open>0xDE\<close>, each 32 below its lower-case letter;
  every other character stays.
\<close>

definition upper_letters :: string where
  "upper_letters =
     ''ABCDEFGHIJKLMNOPQRSTUVWXYZ'' @
     [CHR 0xC0, CHR 0xC1, CHR 0xC2, CHR 0xC3, CHR 0xC4, CHR 0xC5, CHR 0xC6, CHR 0xC7,
      CHR 0xC8, CHR 0xC9, CHR 0xCA, CHR 0xCB, CHR 0xCC, CHR 0xCD, CHR 0xCE, CHR 0xCF,
      CHR 0xD0, CHR 0xD1, CHR 0xD2, CHR 0xD3, CHR 0xD4, CHR 0xD5, CHR 0xD6,
      CHR 0xD8, CHR 0xD9, CHR 0xDA, CHR 0xDB, CHR 0xDC, CHR 0xDD, CHR 0xDE]"

definition lower_letters :: string where
  "lower_letters =
     ''abcdefghijklmnopqrstuvwxyz'' @
     [CHR 0xE0, CHR 0xE1, CHR 0xE2, CHR 0xE3, CHR 0xE4, CHR 0xE5, CHR 0xE6, CHR 0xE7,
      CHR 0xE8, CHR 0xE9, CHR 0xEA, CHR 0xEB, CHR 0xEC, CHR 0xED, CHR 0xEE, CHR 0xEF,
      CHR 0xF0, CHR 0xF1, CHR 0xF2, CHR 0xF3, CHR 0xF4, CHR 0xF5, CHR 0xF6,
      CHR 0xF8, CHR 0xF9, CHR 0xFA, CHR 0xFB, CHR 0xFC, CHR 0xFD, CHR 0xFE]"

definition lower_char :: "char \<Rightarrow> char" where
  "lower_char c =
     (case map_of (zip upper_letters lower_letters) c of
        Some d \<Rightarrow> d
      | None \<Rightarrow> c)"

definition lower :: "string \<Rightarrow> string" where
  "lower s = map lower_char s"

text \<open>
  The process environment, as far as the backend reads it. \<open>MT5_LOGIN_int\<close> is what
  \<open>int(os.getenv("MT5_LOGIN", "0"))\<close> yields and \<open>DEFAULT_VOLUME_float\<close> what
  \<open>float(os.getenv("DEFAULT_VOLUME", "0.01"))\<close> yields. A text that is no number
  raises \<open>ValueError\<close>: that is \<open>None\<close> for the login and \<open>Inl\<close> with the error's
  text for the volume.
\<close>

record os_environ =
  FORCE_MT5_DATA :: "string option"
  ACCOUNT_MODE :: "string option"
  MT5_PATH :: "string option"
  MT5_LOGIN_int :: "int option"
  MT5_PASSWORD :: "string option"
  MT5_SERVER :: "string option"
  TRADING_SYMBOL :: "string option"
  DEFAULT_VOLUME_float :: "string + real"

definition getenv :: "string option \<Rightarrow> string \<Rightarrow> string" where
  "getenv v dflt = (case v of None \<Rightarrow> dflt | Some s \<Rightarrow> s)"

text \<open>\<open>os.getenv("FORCE_MT5_DATA", "false").lower() == "true"\<close>: the strict-mode test.\<close>

definition force_mt5_data :: "os_environ \<Rightarrow> bool" where
  "force_mt5_data env = (lower (getenv (FORCE_MT5_DATA env) ''false'') = ''true'')"

section \<open>mt5_mcp.py: the bridge and its simulated ledger\<close>

text \<open>
  A stored position. \<open>volume\<close>, \<open>sl\<close> and \<open>tp\<close> hold whatever the caller of
  \<open>place_order\<close> passed: floats from the trade endpoint, any JSON value from a decision.
\<close>

record position =
  ticket :: int
  psymbol :: string
  ptype :: string
  volume :: json
  price_open :: real
  price_current :: real
  sl :: json
  tp :: json
  profit :: real
  ptime :: int

record tick =
  bid :: real
  ask :: real
  tick_time :: int
  tick_symbol :: string

record candle =
  c_time :: int
  c_open :: real
  c_high :: real
  c_low :: real
  c_close :: real
  c_volume :: int

record account =
  login :: int
  balance :: real
  equity :: real
  margin :: real
  free_margin :: real
  margin_level :: real
  acc_profit :: real
  server :: string
  currency :: string
  trade_mode :: string

text \<open>The fields \<open>__init__\<close> sets. \<open>simulation_mode\<close> is \<open>not MT5_AVAILABLE\<close>.\<close>

record MT5Bridge =
  connected :: bool
  simulation_mode :: bool
  symbol :: string
  sim_base_price :: real
  sim_positions :: "position list"
  sim_ticket_counter :: int

definition init_bridge :: "bool \<Rightarrow> string option \<Rightarrow> MT5Bridge" where
  "init_bridge mt5_available trading_symbol =
     \<lparr>connected = False, simulation_mode = (\<not> mt5_available),
      symbol = getenv trading_symbol ''XAUUSDm'', sim_base_price = 2650,
      sim_positions = [], sim_ticket_counter = 1000\<rparr>"

text \<open>
  What the random generator and the clock give to one \<open>get_tick\<close> call:
  \<open>random.uniform(-5, 5)\<close>, \<open>random.uniform(0.1, 0.5)\<close> and \<open>int(time.time())\<close>.
\<close>

record tick_draw =
  u_price :: real
  u_spread :: real
  now :: int

text \<open>\<open>symbol or self.symbol\<close>: \<open>None\<close> and the empty string give the bridge's symbol.\<close>

definition symbol_or :: "MT5Bridge \<Rightarrow> string option \<Rightarrow> string" where
  "symbol_or st s = (case s of None \<Rightarrow> symbol st | Some x \<Rightarrow> if x = [] then symbol st else x)"

text \<open>The simulation branch of \<open>get_tick\<close>.\<close>

definition sim_tick :: "MT5Bridge \<Rightarrow> string \<Rightarrow> tick_draw \<Rightarrow> tick" where
  "sim_tick st smb d =
     (let price = sim_base_price st + u_price d;
          spread = u_spread d
      in \<lparr>bid = round2 price, ask = round2 (price + spread),
          tick_time = now d, tick_symbol = smb\<rparr>)"

text \<open>
  Outside simulation mode every method only talks to the MetaTrader terminal and leaves
  the bridge's own fields alone; its answer is the parameter \<open>live\<close> of each function.
  For \<open>get_tick\<close> the answer is a tick or the \<open>{"error": ...}\<close> dictionary (\<open>Inl\<close>).
\<close>

definition get_tick :: "(string + tick) \<Rightarrow> MT5Bridge \<Rightarrow> string option \<Rightarrow> tick_draw \<Rightarrow> string + tick" where
  "get_tick live st s d =
     (if simulation_mode st then Inr (sim_tick st (symbol_or st s) d) else live)"

text \<open>
  The body of the loop of \<open>get_positions\<close>: one position marked to a tick. The two
  assignments run in order, so a volume that is no number leaves \<open>price_current\<close> written
  and \<open>profit\<close> as it was, with the \<open>TypeError\<close> of the multiplication.
\<close>

definition mark_position :: "tick \<Rightarrow> position \<Rightarrow> position \<times> exn option" where
  "mark_position t p =
     (if ptype p = ''buy''
      then (let p1 = p\<lparr>price_current := bid t\<rparr>
            in case num_val (volume p) of
                 None \<Rightarrow> (p1, Some TypeError)
               | Some v \<Rightarrow> (p1\<lparr>profit := round2 ((bid t - price_open p) * v * 100)\<rparr>, None))
      else (let p1 = p\<lparr>price_current := ask t\<rparr>
            in case num_val (volume p) of
                 None \<Rightarrow> (p1, Some TypeError)
               | Some v \<Rightarrow> (p1\<lparr>profit := round2 ((price_open p - ask t) * v * 100)\<rparr>, None)))"

text \<open>The loop \<open>for p in self._sim_positions\<close>; it stops at the first exception.\<close>

fun mark_to_market :: "tick \<Rightarrow> position list \<Rightarrow> position list \<times> exn option" where
  "mark_to_market t [] = ([], None)"
| "mark_to_market t (p # ps) =
     (case mark_position t p of
        (p', Some e) \<Rightarrow> (p' # ps, Some e)
      | (p', None) \<Rightarrow> (case mark_to_market t ps of (ps', r) \<Rightarrow> (p' # ps', r)))"

text \<open>
  \<open>get_positions\<close> draws a tick, marks every stored position in place and returns the
  stored list itself.
\<close>

definition get_positions ::
  "position list \<Rightarrow> MT5Bridge \<Rightarrow> string option \<Rightarrow> tick_draw
     \<Rightarrow> (exn + position list) \<times> MT5Bridge" where
  "get_positions live st s d =
     (if simulation_mode st
      then (let t = sim_tick st (symbol_or st s) d
            in case mark_to_market t (sim_positions st) of
                 (ps, Some e) \<Rightarrow> (Inl e, st\<lparr>sim_positions := ps\<rparr>)
               | (ps, None) \<Rightarrow> (Inr ps, st\<lparr>sim_positions := ps\<rparr>))
      else (Inr live, st))"

text \<open>
  The result dictionaries of \<open>place_order\<close> and \<open>close_position\<close>.
  \<open>PositionNotFound t\<close> is the message \<open>f"Position {t} not found"\<close>. In
  \<open>place_order\<close> the clock is read for the tick and again for the position's \<open>time\<close>;
  both readings are the \<open>now\<close> of the draw.
\<close>

datatype message = Text string | PositionNotFound int

datatype order_result =
    OrderFailed message
  | OrderPlaced int real string
  | PositionClosed int real

fun success :: "order_result \<Rightarrow> bool" where
  "success (OrderFailed m) = False"
| "success (OrderPlaced t p a) = True"
| "success (PositionClosed t p) = True"

definition place_order ::
  "os_environ \<Rightarrow> order_result \<Rightarrow> MT5Bridge \<Rightarrow> string \<Rightarrow> string option \<Rightarrow> json \<Rightarrow> json \<Rightarrow> json
     \<Rightarrow> tick_draw \<Rightarrow> order_result \<times> MT5Bridge" where
  "place_order env live st action s vol sl_arg tp_arg d =
     (if simulation_mode st
      then (if force_mt5_data env
            then (OrderFailed (Text ''Cannot place mock order in STRICT MT5 mode.''), st)
            else (let smb = symbol_or st s;
                      t = sim_tick st smb d;
                      price = (if lower action = ''buy'' then ask t else bid t);
                      n = sim_ticket_counter st + 1;
                      pos = \<lparr>ticket = n, psymbol = smb, ptype = lower action, volume = vol,
                             price_open = price, price_current = price, sl = sl_arg, tp = tp_arg,
                             profit = 0, ptime = now d\<rparr>
                  in (OrderPlaced n price action,
                      st\<lparr>sim_ticket_counter := n, sim_positions := sim_positions st @ [pos]\<rparr>)))
      else (live, st))"

text \<open>
  The \<open>enumerate\<close> loop of \<open>close_position\<close>: the first position with the ticket is
  popped; \<open>None\<close> when the loop ends without a match.
\<close>

fun pop_ticket :: "int \<Rightarrow> position list \<Rightarrow> (position \<times> position list) option" where
  "pop_ticket t [] = None"
| "pop_ticket t (p # ps) =
     (if ticket p = t then Some (p, ps)
      else (case pop_ticket t ps of
              None \<Rightarrow> None
            | Some (popped, rest) \<Rightarrow> Some (popped, p # rest)))"

definition close_position :: "order_result \<Rightarrow> MT5Bridge \<Rightarrow> int \<Rightarrow> order_result \<times> MT5Bridge" where
  "close_position live st t =
     (if simulation_mode st
      then (case pop_ticket t (sim_positions st) of
              Some (popped, rest) \<Rightarrow> (PositionClosed t (profit popped), st\<lparr>sim_positions := rest\<rparr>)
            | None \<Rightarrow> (OrderFailed (PositionNotFound t), st))
      else (live, st))"

text \<open>
  \<open>sum(p.get("volume", 0) * 1000 for p in self._sim_positions)\<close>: \<open>None\<close> where a volume
  is no number, which ends the sum with a \<open>TypeError\<close>.
\<close>

fun sum_margin :: "position list \<Rightarrow> real option" where
  "sum_margin [] = Some 0"
| "sum_margin (p # ps) =
     (case num_val (volume p) of
        None \<Rightarrow> None
      | Some v \<Rightarrow> (case sum_margin ps of None \<Rightarrow> None | Some m \<Rightarrow> Some (v * 1000 + m)))"

text \<open>
  \<open>get_account_info\<close>. The answer is an account or, in the live branch, the
  \<open>{"error": ...}\<close> dictionary (the inner \<open>Inl\<close>); the outer \<open>Inl\<close> is a raised exception.
\<close>

definition get_account_info ::
  "os_environ \<Rightarrow> (string + account) \<Rightarrow> MT5Bridge \<Rightarrow> exn + (string + account)" where
  "get_account_info env live st =
     (if simulation_mode st
      then (case sum_margin (sim_positions st) of
              None \<Rightarrow> Inl TypeError
            | Some m \<Rightarrow>
                Inr (Inr \<lparr>login = 12345678, balance = 10000,
                          equity = 10000 + sum_list (map profit (sim_positions st)),
                          margin = m,
                          free_margin = 10000 - m,
                          margin_level = 0,
                          acc_profit = sum_list (map profit (sim_positions st)),
                          server = ''SimulationServer'', currency = ''USD'',
                          trade_mode = getenv (ACCOUNT_MODE env) ''demo''\<rparr>))
      else Inr live)"

subsection \<open>The synthetic candle source\<close>

text \<open>
  What the random generator gives to one turn of the loop of \<open>_simulate_candles\<close>:
  \<open>random.gauss(0, 2.5)\<close>, the two \<open>random.gauss(0, 1.5)\<close> and \<open>random.randint(50, 500)\<close>.
\<close>

record candle_draw =
  g_change :: real
  g_high :: real
  g_low :: real
  r_vol :: int

definition tf_minutes :: "string \<Rightarrow> int" where
  "tf_minutes timeframe =
     (case map_of [(''M1'', 1), (''M5'', 5), (''M15'', 15), (''M30'', 30),
                   (''H1'', 60), (''H4'', 240), (''D1'', 1440)] timeframe of
        Some m \<Rightarrow> m
      | None \<Rightarrow> 5)"

text \<open>
  The loop \<open>for i in range(count)\<close>, from turn \<open>i\<close> with \<open>k\<close> turns left. It returns the
  candles appended from there on and the last value written to \<open>self._sim_base_price\<close>
  (the running price where no turn is left).
\<close>

fun candle_loop ::
  "int \<Rightarrow> int \<Rightarrow> int \<Rightarrow> (nat \<Rightarrow> candle_draw) \<Rightarrow> nat \<Rightarrow> nat \<Rightarrow> real \<Rightarrow> candle list \<times> real" where
  "candle_loop t_now cnt tfm dr i 0 price = ([], price)"
| "candle_loop t_now cnt tfm dr i (Suc k) price =
     (let t = t_now - (cnt - int i) * tfm * 60;
          change = g_change (dr i);
          opn = round2 price;
          cls = round2 (price + change);
          hgh = round2 (max opn cls + \<bar>g_high (dr i)\<bar>);
          low = round2 (min opn cls - \<bar>g_low (dr i)\<bar>);
          vol = r_vol (dr i);
          cd = \<lparr>c_time = t, c_open = opn, c_high = hgh, c_low = low, c_close = cls,
                c_volume = vol\<rparr>;
          (cs, final) = candle_loop t_now cnt tfm dr (Suc i) k cls
      in (cd # cs, final))"

definition simulate_candles ::
  "MT5Bridge \<Rightarrow> int \<Rightarrow> string \<Rightarrow> int \<Rightarrow> (nat \<Rightarrow> candle_draw) \<Rightarrow> candle list \<times> MT5Bridge" where
  "simulate_candles st cnt timeframe t_now dr =
     (let (cs, final) = candle_loop t_now cnt (tf_minutes timeframe) dr 0 (nat cnt) (sim_base_price st)
      in (cs, st\<lparr>sim_base_price := final\<rparr>))"

text \<open>\<open>get_rates\<close>; in simulation mode the symbol is not looked at.\<close>

definition get_rates ::
  "candle list \<Rightarrow> MT5Bridge \<Rightarrow> string \<Rightarrow> int \<Rightarrow> int \<Rightarrow> (nat \<Rightarrow> candle_draw) \<Rightarrow> candle list \<times> MT5Bridge" where
  "get_rates live st timeframe cnt t_now dr =
     (if simulation_mode st then simulate_candles st cnt timeframe t_now dr else (live, st))"

subsection \<open>Connecting: the module's import, \<open>initialize\<close> and the application's start\<close>

text \<open>
  What the MetaTrader terminal answers during \<open>initialize\<close>: \<open>mt5.initialize(...)\<close>,
  \<open>mt5.last_error()\<close> as text, \<open>mt5.login(...)\<close>, and \<open>mt5.account_info()\<close> reduced to
  its \<open>trade_mode\<close> and \<open>login\<close> (\<open>None\<close> as in the SDK).
\<close>

record mt5_terminal =
  mt5_initialize :: bool
  mt5_last_error :: string
  mt5_login :: bool
  mt5_account_info :: "(int \<times> int) option"

text \<open>
  The messages of \<open>initialize\<close>, in the order of the source: the strict-mode refusal
  (\<open>"CRITICAL: MT5 not available but FORCE_MT5_DATA is true. Exiting."\<close>), the
  simulation notice, \<open>"CRITICAL: MT5 init failed: ..."\<close>, \<open>"MT5 init failed: ..."\<close>,
  \<open>"MT5 login failed: ..."\<close> and \<open>"Connected to MT5 (mode) ... Account #login"\<close>.
\<close>

datatype init_message =
    CriticalNotAvailable
  | RunningInSimulation
  | CriticalInitFailed string
  | InitFailed string
  | LoginFailed string
  | ConnectedTo string int

record init_result =
  init_success :: bool
  init_message :: init_message
  init_mode :: "string option"

definition initialize ::
  "os_environ \<Rightarrow> mt5_terminal \<Rightarrow> MT5Bridge \<Rightarrow> (exn + init_result) \<times> MT5Bridge" where
  "initialize env term st =
     (if simulation_mode st
      then (if force_mt5_data env
            then (Inr \<lparr>init_success = False, init_message = CriticalNotAvailable,
                       init_mode = None\<rparr>, st)
            else (Inr \<lparr>init_success = True, init_message = RunningInSimulation,
                       init_mode = Some ''simulation''\<rparr>, st\<lparr>connected := True\<rparr>))
      else (case MT5_LOGIN_int env of
              None \<Rightarrow> (Inl ValueError, st)
            | Some lg \<Rightarrow>
                if \<not> mt5_initialize term
                then (if force_mt5_data env
                      then (Inr \<lparr>init_success = False,
                                 init_message = CriticalInitFailed (mt5_last_error term),
                                 init_mode = None\<rparr>, st)
                      else (Inr \<lparr>init_success = False,
                                 init_message = InitFailed (mt5_last_error term),
                                 init_mode = None\<rparr>, st))
                else if lg \<noteq> 0 \<and> getenv (MT5_PASSWORD env) [] \<noteq> [] \<and> getenv (MT5_SERVER env) [] \<noteq> []
                        \<and> \<not> mt5_login term
                then (Inr \<lparr>init_success = False,
                           init_message = LoginFailed (mt5_last_error term),
                           init_mode = None\<rparr>, st)
                else (case mt5_account_info term of
                        None \<Rightarrow> (Inl AttributeError, st\<lparr>connected := True\<rparr>)
                      | Some (tm, acc_login) \<Rightarrow>
                          (let md = (if tm = 0 then ''demo'' else ''live'')
                           in (Inr \<lparr>init_success = True, init_message = ConnectedTo md acc_login,
                                      init_mode = Some md\<rparr>, st\<lparr>connected := True\<rparr>)))))"

text \<open>
  The top of \<open>mt5_mcp.py\<close>: \<open>MT5_AVAILABLE\<close> is whether the MetaTrader5 package imports;
  without it, strict mode raises \<open>ImportError\<close> at import time.
\<close>

definition import_mt5_mcp :: "os_environ \<Rightarrow> bool \<Rightarrow> exn + bool" where
  "import_mt5_mcp env importable =
     (if importable then Inr True
      else if force_mt5_data env then Inl ImportError
      else Inr False)"

text \<open>
  The start of \<open>lifespan\<close> in \<open>main.py\<close>, up to \<open>yield\<close>: \<open>Inr\<close> is the bridge with which
  the application runs, \<open>Inl\<close> the exception that stops the start.
\<close>

definition lifespan :: "os_environ \<Rightarrow> mt5_terminal \<Rightarrow> MT5Bridge \<Rightarrow> exn + MT5Bridge" where
  "lifespan env term st =
     (case initialize env term st of
        (Inl e, st') \<Rightarrow> Inl e
      | (Inr result, st') \<Rightarrow>
          if \<not> init_success result
          then (if force_mt5_data env then Inl StrictModeError else Inr st')
          else Inr st')"

text \<open>Importing \<open>main.py\<close> (which builds the bridge) and then starting the application.\<close>

definition startup :: "os_environ \<Rightarrow> bool \<Rightarrow> mt5_terminal \<Rightarrow> exn + MT5Bridge" where
  "startup env importable term =
     (case import_mt5_mcp env importable of
        Inl e \<Rightarrow> Inl e
      | Inr mt5_available \<Rightarrow> lifespan env term (init_bridge mt5_available (TRADING_SYMBOL env)))"

section \<open>agent.py: the oracle adapter\<close>

text \<open>A dictionary is an association list with distinct keys, in insertion order.\<close>

type_synonym pydict = "(string \<times> json) list"

definition setdefault :: "string \<Rightarrow> json \<Rightarrow> pydict \<Rightarrow> pydict" where
  "setdefault k v d = (case map_of d k of None \<Rightarrow> d @ [(k, v)] | Some x \<Rightarrow> d)"

text \<open>\<open>d[k]\<close>, which raises \<open>KeyError\<close>, and \<open>d.get(k, dflt)\<close>.\<close>

definition getitem :: "pydict \<Rightarrow> string \<Rightarrow> exn + json" where
  "getitem d k = (case map_of d k of None \<Rightarrow> Inl (KeyError k) | Some v \<Rightarrow> Inr v)"

definition dict_get :: "pydict \<Rightarrow> string \<Rightarrow> json \<Rightarrow> json" where
  "dict_get d k dflt = (case map_of d k of None \<Rightarrow> dflt | Some v \<Rightarrow> v)"

subsection \<open>The string operations on the response text\<close>

text \<open>
  \<open>str.strip()\<close> removes the whitespace of both ends. Below 256 the whitespace code
  points are tab, line feed, vertical tab, form feed, carriage return, the four separators
  \<open>0x1C\<close> to \<open>0x1F\<close>, the space, the next-line control \<open>0x85\<close> and the no-break space
  \<open>0xA0\<close>.
\<close>

definition is_space :: "char \<Rightarrow> bool" where
  "is_space c =
     (c \<in> set [CHR 0x09, CHR 0x0A, CHR 0x0B, CHR 0x0C, CHR 0x0D,
                CHR 0x1C, CHR 0x1D, CHR 0x1E, CHR 0x1F, CHR 0x20, CHR 0x85, CHR 0xA0])"

definition strip :: "string \<Rightarrow> string" where
  "strip s = rev (dropWhile is_space (rev (dropWhile is_space s)))"

fun startswith :: "string \<Rightarrow> string \<Rightarrow> bool" where
  "startswith s [] = True"
| "startswith [] (c # cs) = False"
| "startswith (x # xs) (c # cs) = (x = c \<and> startswith xs cs)"

text \<open>\<open>s.split("\n")\<close> and \<open>"\n".join(lines)\<close>.\<close>

fun split_nl :: "string \<Rightarrow> string list" where
  "split_nl [] = [[]]"
| "split_nl (c # cs) =
     (if c = CHR 0x0A then [] # split_nl cs
      else (case split_nl cs of
              [] \<Rightarrow> [[c]]
            | l # ls \<Rightarrow> (c # l) # ls))"

fun join_nl :: "string list \<Rightarrow> string" where
  "join_nl [] = []"
| "join_nl [l] = l"
| "join_nl (l # m # ls) = l @ CHR 0x0A # join_nl (m # ls)"

text \<open>
  The markdown clean-up of \<open>analyze\<close>: a text that starts with three backquotes loses its
  first and last line (\<open>lines[1:-1]\<close>).
\<close>

definition clean_markdown :: "string \<Rightarrow> string" where
  "clean_markdown response_text =
     (if startswith response_text [CHR 0x60, CHR 0x60, CHR 0x60]
      then join_nl (butlast (tl (split_nl response_text)))
      else response_text)"

subsection \<open>The oracle, the JSON decoder and the decisions\<close>

text \<open>
  What the first two statements of the \<open>try\<close> block meet, up to the point where
  \<open>response_text\<close> is bound. \<open>generate_content(...)\<close> or the read of \<open>response.text\<close>
  raises a \<open>json.JSONDecodeError\<close> with the given text (\<open>RaisesDecodeError\<close>, as when
  the client cannot decode the body it received), another \<open>Exception\<close> with the given
  text (\<open>Raises\<close>; a time-out of the client library is one) or an exception outside
  \<open>Exception\<close>, such as \<open>KeyboardInterrupt\<close> (\<open>RaisesBase\<close>); or there is a response
  whose \<open>text\<close> is a string or \<open>None\<close>.
\<close>

datatype oracle_response =
    RaisesDecodeError string
  | Raises string
  | RaisesBase string
  | Response "string option"

text \<open>
  \<open>json.loads\<close> is a parameter of the model: it decodes the text, raises
  \<open>JSONDecodeError\<close> with a text, or raises another exception with a text.
\<close>

datatype loads_result = Decoded json | DecodeError string | OtherError string

definition default_decision :: "string \<Rightarrow> pydict" where
  "default_decision reasoning =
     [(''action'', JStr ''DO_NOTHING''), (''reasoning'', JStr reasoning),
      (''confidence'', JFloat 0), (''sl'', JNull), (''tp'', JNull), (''volume'', JNull)]"

text \<open>The text of \<open>AttributeError\<close>: \<open>'T' object has no attribute 'a'\<close>.\<close>

definition no_attribute :: "string \<Rightarrow> string \<Rightarrow> string" where
  "no_attribute ty attr =
     CHR 0x27 # ty @ CHR 0x27 # '' object has no attribute '' @ CHR 0x27 # attr @ [CHR 0x27]"

fun type_name :: "json \<Rightarrow> string" where
  "type_name JNull = ''NoneType''"
| "type_name (JBool b) = ''bool''"
| "type_name (JInt n) = ''int''"
| "type_name (JFloat x) = ''float''"
| "type_name (JStr s) = ''str''"
| "type_name (JArr xs) = ''list''"
| "type_name (JObj kvs) = ''dict''"

record hist_entry =
  h_time :: string
  h_action :: json
  h_confidence :: json

text \<open>\<open>client\<close> is whether \<open>self.client\<close> is set.\<close>

record TradingAgent =
  client :: bool
  decision_history :: "hist_entry list"

text \<open>
  \<open>_format_history\<close> formats the confidence of the last five entries with \<open>:.1%\<close>, which
  raises \<open>ValueError\<close> for a string and \<open>TypeError\<close> for \<open>None\<close>, a list or a
  dictionary. An \<open>int\<close> is converted to a float first, which raises \<open>OverflowError\<close>
  when it does not round to a finite double, that is from \<open>2 ^ 1024 - 2 ^ 970\<close> on in
  absolute value. The result is the first exception, if any. The prompt it belongs to is
  built before the \<open>try\<close> block; its text only reaches the oracle.
\<close>

fun format_percent :: "json \<Rightarrow> exn option" where
  "format_percent (JStr s) = Some ValueError"
| "format_percent JNull = Some TypeError"
| "format_percent (JArr xs) = Some TypeError"
| "format_percent (JObj kvs) = Some TypeError"
| "format_percent (JBool b) = None"
| "format_percent (JInt n) = (if 2 ^ 1024 - 2 ^ 970 \<le> \<bar>n\<bar> then Some OverflowError else None)"
| "format_percent (JFloat x) = None"

fun first_exn :: "exn option list \<Rightarrow> exn option" where
  "first_exn [] = None"
| "first_exn (None # es) = first_exn es"
| "first_exn (Some e # es) = Some e"

definition format_history :: "hist_entry list \<Rightarrow> exn option" where
  "format_history h = first_exn (map (\<lambda>d. format_percent (h_confidence d)) (drop (length h - 5) h))"

text \<open>\<open>self.decision_history.append(...)\<close> and the cut to the last 50 entries.\<close>

definition record_decision :: "string \<Rightarrow> pydict \<Rightarrow> hist_entry list \<Rightarrow> hist_entry list" where
  "record_decision stamp decision h =
     (let h' = h @ [\<lparr>h_time = stamp, h_action = dict_get decision ''action'' JNull,
                    h_confidence = dict_get decision ''confidence'' JNull\<rparr>]
      in if 50 < length h' then drop (length h' - 50) h' else h')"

text \<open>
  \<open>analyze\<close>. \<open>loads\<close> is \<open>json.loads\<close>, \<open>stamp\<close> the time stamp of the history
  entry, \<open>resp\<close> what the oracle does when it is called. The market context only enters
  the prompt. The handler of \<open>json.JSONDecodeError\<close> formats \<open>response_text[:200]\<close>:
  when the error comes before \<open>response_text\<close> is bound, the handler itself raises
  \<open>UnboundLocalError\<close>, which no clause catches. The second handler is for
  \<open>Exception\<close>; what is outside it passes through.
\<close>

definition analyze ::
  "os_environ \<Rightarrow> (string \<Rightarrow> loads_result) \<Rightarrow> string \<Rightarrow> TradingAgent \<Rightarrow> oracle_response
     \<Rightarrow> (exn + pydict) \<times> TradingAgent" where
  "analyze env loads stamp ag resp =
     (if \<not> client ag
      then (Inr (default_decision ''Gemini API client not initialized (check keys)''), ag)
      else (case format_history (decision_history ag) of
              Some e \<Rightarrow> (Inl e, ag)
            | None \<Rightarrow>
               (case resp of
                  RaisesDecodeError e \<Rightarrow> (Inl UnboundLocalError, ag)
                | Raises e \<Rightarrow> (Inr (default_decision (''Agent error: '' @ e)), ag)
                | RaisesBase e \<Rightarrow> (Inl (BaseException e), ag)
                | Response None \<Rightarrow>
                    (Inr (default_decision
                            (''Agent error: '' @ no_attribute ''NoneType'' ''strip'')), ag)
                | Response (Some reply) \<Rightarrow>
                    (let response_text = clean_markdown (strip reply)
                     in case loads response_text of
                          DecodeError e \<Rightarrow>
                            (Inr (default_decision
                                    (''Failed to parse agent response: '' @ e @ ''. Raw: ''
                                       @ take 200 response_text)), ag)
                        | OtherError e \<Rightarrow> (Inr (default_decision (''Agent error: '' @ e)), ag)
                        | Decoded (JObj d) \<Rightarrow>
                            (case DEFAULT_VOLUME_float env of
                               Inl e \<Rightarrow> (Inr (default_decision (''Agent error: '' @ e)), ag)
                             | Inr v \<Rightarrow>
                                 (let decision =
                                        setdefault ''volume'' (JFloat v)
                                          (setdefault ''tp'' JNull
                                            (setdefault ''sl'' JNull
                                              (setdefault ''confidence'' (JFloat (1 / 2))
                                                (setdefault ''reasoning'' (JStr ''No reasoning provided'')
                                                  (setdefault ''action'' (JStr ''DO_NOTHING'') d)))))
                                  in (Inr decision,
                                      ag\<lparr>decision_history :=
                                            record_decision stamp decision (decision_history ag)\<rparr>)))
                        | Decoded v \<Rightarrow>
                            (Inr (default_decision
                                    (''Agent error: '' @ no_attribute (type_name v) ''setdefault'')),
                             ag)))))"

section \<open>ws_manager.py: the fan-out to the observers\<close>











section \<open>main.py: one cycle of the agent\<close>

datatype event = Reasoning json json json | TradeEvent order_result

text \<open>
  What the terminal answers to the bridge's methods outside simulation mode, and what the
  clock, the random generator and the oracle give during one cycle.
\<close>

record live_answers =
  live_rates :: "candle list"
  live_positions :: "position list"
  live_account :: "string + account"
  live_order :: order_result
  live_close :: "int \<Rightarrow> order_result"

record cycle_inputs =
  w_now :: int
  w_candles :: "nat \<Rightarrow> candle_draw"
  w_mark :: tick_draw
  w_order :: tick_draw
  w_stamp :: string
  w_oracle :: oracle_response

text \<open>
  The loop \<open>for p in positions\<close> of the \<open>CLOSE\<close> branch. In simulation mode
  \<open>positions\<close> is the list object \<open>self._sim_positions\<close> that \<open>close_position\<close> pops
  from, so the iteration reads index \<open>i\<close> of the list as it is at that turn.
\<close>

function close_stored :: "(int \<Rightarrow> order_result) \<Rightarrow> nat \<Rightarrow> MT5Bridge \<Rightarrow> event list \<times> MT5Bridge" where
  "close_stored lv i st =
     (if i < length (sim_positions st)
      then (let t = ticket (sim_positions st ! i);
                r = close_position (lv t) st t
            in case close_stored lv (Suc i) (snd r) of
                 (evs, st') \<Rightarrow> (TradeEvent (fst r) # evs, st'))
      else ([], st))"
  by pat_completeness auto
termination
proof (relation "measure (\<lambda>(lv, i, st). length (sim_positions st) - i)")
  show "wf (measure (\<lambda>(lv, i, st). length (sim_positions st) - i))"
    by simp
next
  fix lv :: "int \<Rightarrow> order_result" and i :: nat and st :: MT5Bridge and x xa
  assume turn: "i < length (sim_positions st)" "x = ticket (sim_positions st ! i)"
    "xa = close_position (lv x) st x"
  have pop: "pop_ticket t ps = Some (c, rest) \<Longrightarrow> length rest < length ps" for t ps c rest
    by (induction ps arbitrary: c rest) (auto split: if_splits option.splits)
  have "length (sim_positions (snd (close_position (lv x) st x))) \<le> length (sim_positions st)"
    using pop by (fastforce simp: close_position_def split: option.splits)
  with turn show "((lv, Suc i, snd xa), (lv, i, st))
      \<in> measure (\<lambda>(lv, i, st). length (sim_positions st) - i)"
    by simp
qed

text \<open>Outside simulation mode \<open>positions\<close> is a list of its own.\<close>

fun close_listed :: "(int \<Rightarrow> order_result) \<Rightarrow> position list \<Rightarrow> MT5Bridge \<Rightarrow> event list \<times> MT5Bridge" where
  "close_listed lv [] st = ([], st)"
| "close_listed lv (p # ps) st =
     (let r = close_position (lv (ticket p)) st (ticket p)
      in case close_listed lv ps (snd r) of
           (evs, st') \<Rightarrow> (TradeEvent (fst r) # evs, st'))"

text \<open>
  Step 3 of \<open>run_agent_cycle\<close>: the decision is executed. The result is the
  \<open>trade_event\<close>s broadcast, the exception that ends the step (if any) and the bridge.
\<close>

definition execute_decision ::
  "os_environ \<Rightarrow> live_answers \<Rightarrow> cycle_inputs \<Rightarrow> MT5Bridge \<Rightarrow> position list \<Rightarrow> pydict
     \<Rightarrow> (event list \<times> exn option) \<times> MT5Bridge" where
  "execute_decision env la w st positions decision =
     (case getitem decision ''action'' of
        Inl e \<Rightarrow> (([], Some e), st)
      | Inr a \<Rightarrow>
          if a = JStr ''BUY'' \<or> a = JStr ''SELL''
          then (case getitem decision ''confidence'' of
                  Inl e \<Rightarrow> (([], Some e), st)
                | Inr c \<Rightarrow>
                    (case num_val c of
                       None \<Rightarrow> (([], Some TypeError), st)
                     | Some x \<Rightarrow>
                         if 7 / 10 \<le> x
                         then (let r = place_order env (live_order la) st
                                         (case a of JStr act \<Rightarrow> act | _ \<Rightarrow> []) None
                                         (dict_get decision ''volume'' (JFloat (1 / 100)))
                                         (dict_get decision ''sl'' (JFloat 0))
                                         (dict_get decision ''tp'' (JFloat 0))
                                         (w_order w)
                               in (([TradeEvent (fst r)], None), snd r))
                         else (([], None), st)))
          else if a = JStr ''CLOSE''
          then (case (if simulation_mode st then close_stored (live_close la) 0 st
                      else close_listed (live_close la) positions st) of
                  (evs, st') \<Rightarrow> ((evs, None), st'))
          else (([], None), st))"

text \<open>
  \<open>run_agent_cycle\<close>: the context is gathered (which writes the running price and marks
  the positions), the oracle is asked, the \<open>reasoning\<close> event is broadcast and the
  decision is executed. The result is the events broadcast, the exception that ends the
  cycle (if any), the bridge and the agent.
\<close>

definition run_agent_cycle ::
  "os_environ \<Rightarrow> (string \<Rightarrow> loads_result) \<Rightarrow> live_answers \<Rightarrow> cycle_inputs \<Rightarrow> MT5Bridge
     \<Rightarrow> TradingAgent \<Rightarrow> (event list \<times> exn option) \<times> MT5Bridge \<times> TradingAgent" where
  "run_agent_cycle env loads la w st ag =
     (let st1 = snd (get_rates (live_rates la) st ''M5'' 50 (w_now w) (w_candles w))
      in case get_positions (live_positions la) st1 None (w_mark w) of
           (Inl e, st2) \<Rightarrow> (([], Some e), st2, ag)
         | (Inr positions, st2) \<Rightarrow>
             (case get_account_info env (live_account la) st2 of
                Inl e \<Rightarrow> (([], Some e), st2, ag)
              | Inr acc \<Rightarrow>
                  (case analyze env loads (w_stamp w) ag (w_oracle w) of
                     (Inl e, ag') \<Rightarrow> (([], Some e), st2, ag')
                   | (Inr decision, ag') \<Rightarrow>
                       (case getitem decision ''action'' of
                          Inl e \<Rightarrow> (([], Some e), st2, ag')
                        | Inr a \<Rightarrow>
                       (case getitem decision ''reasoning'' of
                          Inl e \<Rightarrow> (([], Some e), st2, ag')
                        | Inr r \<Rightarrow>
                       (case getitem decision ''confidence'' of
                          Inl e \<Rightarrow> (([], Some e), st2, ag')
                        | Inr c \<Rightarrow>
                           (case execute_decision env la w st2 positions decision of
                              ((evs, x), st3) \<Rightarrow> ((Reasoning a r c # evs, x), st3, ag'))))))))"

section \<open>Sequences of calls and sample inputs\<close>

text \<open>
  A call of one of the three methods that write the simulated ledger, with its arguments
  and the tick draw it consumes; \<open>run_calls\<close> makes the calls of a list in order.
\<close>

datatype bridge_call =
    PlaceOrder string "string option" json json json tick_draw
  | ClosePosition int
  | GetPositions "string option" tick_draw

fun call_bridge :: "os_environ \<Rightarrow> live_answers \<Rightarrow> MT5Bridge \<Rightarrow> bridge_call \<Rightarrow> MT5Bridge" where
  "call_bridge env la st (PlaceOrder action s vol sl_arg tp_arg d) =
     snd (place_order env (live_order la) st action s vol sl_arg tp_arg d)"
| "call_bridge env la st (ClosePosition t) = snd (close_position (live_close la t) st t)"
| "call_bridge env la st (GetPositions s d) = snd (get_positions (live_positions la) st s d)"

fun run_calls :: "os_environ \<Rightarrow> live_answers \<Rightarrow> MT5Bridge \<Rightarrow> bridge_call list \<Rightarrow> MT5Bridge" where
  "run_calls env la st [] = st"
| "run_calls env la st (c # cs) = run_calls env la (call_bridge env la st c) cs"

text \<open>
  Whether a call opens a position with the symbol argument \<open>s\<close>, and how many stored
  positions are on an instrument.
\<close>

fun opens_on :: "string option \<Rightarrow> bridge_call \<Rightarrow> bool" where
  "opens_on s (PlaceOrder action s' vol sl_arg tp_arg d) = (s' = s)"
| "opens_on s (ClosePosition t) = False"
| "opens_on s (GetPositions s' d) = False"

definition held_on :: "string \<Rightarrow> MT5Bridge \<Rightarrow> nat" where
  "held_on smb st = length (filter (\<lambda>p. psymbol p = smb) (sim_positions st))"

text \<open>
  An environment with no variable set (the defaults apply), the same with strict mode
  switched on, a terminal that answers nothing useful to the bridge's methods, a terminal
  that does not initialise, and a tick draw.
\<close>

definition plain_env :: os_environ where
  "plain_env =
     \<lparr>FORCE_MT5_DATA = None, ACCOUNT_MODE = None, MT5_PATH = None, MT5_LOGIN_int = Some 0,
      MT5_PASSWORD = None, MT5_SERVER = None, TRADING_SYMBOL = None,
      DEFAULT_VOLUME_float = Inr (1 / 100)\<rparr>"

definition no_terminal :: live_answers where
  "no_terminal =
     \<lparr>live_rates = [], live_positions = [], live_account = Inl ''Failed to get account info'',
      live_order = OrderFailed (Text ''Unknown error''),
      live_close = (\<lambda>t. OrderFailed (PositionNotFound t))\<rparr>"

definition strict_env :: os_environ where
  "strict_env = plain_env\<lparr>FORCE_MT5_DATA := Some ''TRUE''\<rparr>"

definition dead_terminal :: mt5_terminal where
  "dead_terminal =
     \<lparr>mt5_initialize = False, mt5_last_error = ''(-10003, IPC initialize failed)'',
      mt5_login = False, mt5_account_info = None\<rparr>"

definition draw :: "real \<Rightarrow> real \<Rightarrow> tick_draw" where
  "draw u sp = \<lparr>u_price = u, u_spread = sp, now = 1700000000\<rparr>"

text \<open>
  Candle draws that move the price up by 1.25 each turn; an agent with a client and no
  history; the inputs of a cycle around a given oracle response.
\<close>

definition steady :: "nat \<Rightarrow> candle_draw" where
  "steady i = \<lparr>g_change = 5 / 4, g_high = 1 / 2, g_low = - 1 / 2, r_vol = 100\<rparr>"

definition ready_agent :: TradingAgent where
  "ready_agent = \<lparr>client = True, decision_history = []\<rparr>"

definition sample_cycle :: "oracle_response \<Rightarrow> cycle_inputs" where
  "sample_cycle resp =
     \<lparr>w_now = 1700000000, w_candles = steady, w_mark = draw 1 (1 / 2), w_order = draw 0 (1 / 2),
      w_stamp = ''2023-11-14T22:13:20'', w_oracle = resp\<rparr>"

text \<open>
  An oracle answer \<open>{"action": "BUY", "confidence": 0.65}\<close> and a decoder that knows this
  one text and rejects every other with the message \<open>json.loads\<close> gives for plain prose.
\<close>

definition dq :: "string \<Rightarrow> string" where
  "dq s = CHR 0x22 # s @ [CHR 0x22]"

definition low_buy_text :: string where
  "low_buy_text =
     ''{'' @ dq ''action'' @ '': '' @ dq ''BUY'' @ '', '' @ dq ''confidence'' @ '': 0.65}''"

definition sample_loads :: "string \<Rightarrow> loads_result" where
  "sample_loads s =
     (if s = low_buy_text
      then Decoded (JObj [(''action'', JStr ''BUY''), (''confidence'', JFloat (65 / 100))])
      else DecodeError ''Expecting value: line 1 column 1 (char 0)'')"

text \<open>
  An oracle answer \<open>{"action": "HOLD", "confidence": "high"}\<close>, whose confidence is a
  word, and a decoder that knows this one text.
\<close>

definition vague_hold_text :: string where
  "vague_hold_text =
     ''{'' @ dq ''action'' @ '': '' @ dq ''HOLD'' @ '', '' @ dq ''confidence'' @ '': ''
       @ dq ''high'' @ ''}''"

definition vague_loads :: "string \<Rightarrow> loads_result" where
  "vague_loads s =
     (if s = vague_hold_text
      then Decoded (JObj [(''action'', JStr ''HOLD''), (''confidence'', JStr ''high'')])
      else DecodeError ''Expecting value: line 1 column 1 (char 0)'')"


text \<open>
  A confident buy whose stop-loss and take-profit both lie 0.01 from an entry at 2650.50.
\<close>

definition tight_buy :: pydict where
  "tight_buy =
     [(''action'', JStr ''BUY''), (''reasoning'', JStr ''breakout''),
      (''confidence'', JFloat (9 / 10)), (''sl'', JFloat (265049 / 100)),
      (''tp'', JFloat (265051 / 100)), (''volume'', JFloat (1 / 100))]"

section \<open>Properties of the simulated ledger\<close>

lemmas ledger_defs =
  plain_env_def no_terminal_def draw_def init_bridge_def place_order_def get_positions_def
  close_position_def get_account_info_def force_mt5_data_def getenv_def lower_def
  lower_char_def upper_letters_def lower_letters_def symbol_or_def sim_tick_def round2_def
  round_half_even_def
  mark_position_def Let_def

lemma call_bridge_mode: "simulation_mode (call_bridge env la st c) = simulation_mode st"
  by (cases c)
     (auto simp: place_order_def close_position_def get_positions_def Let_def
           split: option.splits prod.splits)

lemma run_calls_mode: "simulation_mode (run_calls env la st cs) = simulation_mode st"
  by (induction cs arbitrary: st) (simp_all add: call_bridge_mode)

lemma sum_margin_Some:
  "list_all (\<lambda>p. num_val (volume p) \<noteq> None) ps \<Longrightarrow> \<exists>m. sum_margin ps = Some m"
  by (induction ps) auto

text \<open>
  C10. In simulation mode, after any sequence of \<open>place_order\<close>, \<open>close_position\<close> and
  \<open>get_positions\<close> calls, every account that \<open>get_account_info\<close> reports has the balance
  10000, and it reports one whenever the stored volumes are numbers: the profit that
  \<open>close_position\<close> returns is never added to the balance.
\<close>

theorem balance_constant:
  assumes "simulation_mode st"
  shows "(\<forall>a. get_account_info env live (run_calls env la st calls) = Inr (Inr a)
              \<longrightarrow> balance a = 10000)
       \<and> (list_all (\<lambda>p. num_val (volume p) \<noteq> None) (sim_positions (run_calls env la st calls))
            \<longrightarrow> (\<exists>a. get_account_info env live (run_calls env la st calls) = Inr (Inr a)))"
proof -
  have sim: "simulation_mode (run_calls env la st calls)"
    using assms by (simp add: run_calls_mode)
  show ?thesis
  proof (intro conjI allI impI)
    fix a
    assume "get_account_info env live (run_calls env la st calls) = Inr (Inr a)"
    with sim show "balance a = 10000"
      by (auto simp: get_account_info_def split: option.splits)
  next
    assume "list_all (\<lambda>p. num_val (volume p) \<noteq> None) (sim_positions (run_calls env la st calls))"
    then obtain m where "sum_margin (sim_positions (run_calls env la st calls)) = Some m"
      using sum_margin_Some by blast
    with sim show "\<exists>a. get_account_info env live (run_calls env la st calls) = Inr (Inr a)"
      by (simp add: get_account_info_def)
  qed
qed

text \<open>
  A buy of one lot filled at 2650.50 and marked at a bid of 2651.00 closes with a profit
  of 50; the balance reported afterwards is still 10000.
\<close>

theorem balance_constant_witness:
  "simulation_mode (init_bridge False None)
   \<and> fst (close_position (OrderFailed (Text []))
            (run_calls plain_env no_terminal (init_bridge False None)
               [PlaceOrder ''BUY'' None (JFloat 1) (JFloat 0) (JFloat 0) (draw 0 (1 / 2)),
                GetPositions None (draw 1 (1 / 2))]) 1001) = PositionClosed 1001 50
   \<and> (\<exists>a. get_account_info plain_env (Inl [])
             (run_calls plain_env no_terminal (init_bridge False None)
                [PlaceOrder ''BUY'' None (JFloat 1) (JFloat 0) (JFloat 0) (draw 0 (1 / 2)),
                 GetPositions None (draw 1 (1 / 2)), ClosePosition 1001]) = Inr (Inr a)
           \<and> balance a = 10000)"
proof -
  have h: "simulation_mode (init_bridge False None)"
    by (simp add: init_bridge_def)
  have v: "list_all (\<lambda>p. num_val (volume p) \<noteq> None)
             (sim_positions (run_calls plain_env no_terminal (init_bridge False None)
                [PlaceOrder ''BUY'' None (JFloat 1) (JFloat 0) (JFloat 0) (draw 0 (1 / 2)),
                 GetPositions None (draw 1 (1 / 2)), ClosePosition 1001]))"
    by (simp add: ledger_defs)
  have c: "fst (close_position (OrderFailed (Text []))
            (run_calls plain_env no_terminal (init_bridge False None)
               [PlaceOrder ''BUY'' None (JFloat 1) (JFloat 0) (JFloat 0) (draw 0 (1 / 2)),
                GetPositions None (draw 1 (1 / 2))]) 1001) = PositionClosed 1001 50"
    by (simp add: ledger_defs)
  from balance_constant [OF h, of plain_env "Inl []" no_terminal
      "[PlaceOrder ''BUY'' None (JFloat 1) (JFloat 0) (JFloat 0) (draw 0 (1 / 2)),
        GetPositions None (draw 1 (1 / 2)), ClosePosition 1001]"] v
  have "\<exists>a. get_account_info plain_env (Inl [])
             (run_calls plain_env no_terminal (init_bridge False None)
                [PlaceOrder ''BUY'' None (JFloat 1) (JFloat 0) (JFloat 0) (draw 0 (1 / 2)),
                 GetPositions None (draw 1 (1 / 2)), ClosePosition 1001]) = Inr (Inr a)
           \<and> balance a = 10000"
    by blast
  with h c show ?thesis by blast
qed

lemma place_order_sim:
  assumes "simulation_mode st" and "\<not> force_mt5_data env"
  shows "place_order env live st action s vol sl_arg tp_arg d =
     (OrderPlaced (sim_ticket_counter st + 1)
        (if lower action = ''buy'' then ask (sim_tick st (symbol_or st s) d)
         else bid (sim_tick st (symbol_or st s) d)) action,
      st\<lparr>sim_ticket_counter := sim_ticket_counter st + 1,
         sim_positions := sim_positions st @
           [\<lparr>ticket = sim_ticket_counter st + 1, psymbol = symbol_or st s, ptype = lower action,
             volume = vol,
             price_open = (if lower action = ''buy'' then ask (sim_tick st (symbol_or st s) d)
                           else bid (sim_tick st (symbol_or st s) d)),
             price_current = (if lower action = ''buy'' then ask (sim_tick st (symbol_or st s) d)
                              else bid (sim_tick st (symbol_or st s) d)),
             sl = sl_arg, tp = tp_arg, profit = 0, ptime = now d\<rparr>]\<rparr>)"
  using assms by (simp add: place_order_def Let_def)

lemma opens_accumulate:
  assumes "\<not> force_mt5_data env"
  shows "simulation_mode st \<Longrightarrow> list_all (opens_on s) calls \<Longrightarrow>
     held_on (symbol_or st s) (run_calls env la st calls)
       = held_on (symbol_or st s) st + length calls"
proof (induction calls arbitrary: st)
  case Nil
  show ?case by simp
next
  case (Cons c calls)
  from Cons.prems obtain action vol sl_arg tp_arg d
    where c: "c = PlaceOrder action s vol sl_arg tp_arg d"
    by (cases c) auto
  define st' where "st' = call_bridge env la st c"
  have sim': "simulation_mode st'"
    using Cons.prems(1) by (simp add: st'_def call_bridge_mode)
  have smb: "symbol_or st' s = symbol_or st s"
    using Cons.prems(1) assms
    by (simp add: st'_def c place_order_sim symbol_or_def split: option.splits)
  have one: "held_on (symbol_or st s) st' = Suc (held_on (symbol_or st s) st)"
    using Cons.prems(1) assms by (simp add: st'_def c place_order_sim held_on_def)
  from Cons.prems have "list_all (opens_on s) calls" by simp
  from Cons.IH [OF sim' this] smb one show ?case
    by (simp add: st'_def)
qed

text \<open>
  C1, as the code has it. The simulated ledger has no limit on the positions of an
  instrument: in simulation mode without strict mode \<open>place_order\<close> accepts every order,
  whatever is stored, and a sequence of opens on one instrument adds as many positions
  there as it has calls.
\<close>

theorem place_order_has_no_limit:
  assumes "simulation_mode st" and "\<not> force_mt5_data env"
  shows "success (fst (place_order env live st action s vol sl_arg tp_arg d))
     \<and> (list_all (opens_on s) calls \<longrightarrow>
          held_on (symbol_or st s) (run_calls env la st calls)
            = held_on (symbol_or st s) st + length calls)"
  using assms opens_accumulate [of env st s calls la]
  by (simp add: place_order_sim)

theorem place_order_has_no_limit_witness:
  "simulation_mode (init_bridge False None) \<and> \<not> force_mt5_data plain_env
   \<and> list_all (opens_on None)
        [PlaceOrder ''BUY'' None (JFloat (1 / 100)) (JFloat 0) (JFloat 0) (draw 0 (1 / 2)),
         PlaceOrder ''SELL'' None (JFloat (1 / 100)) (JFloat 0) (JFloat 0) (draw 1 (1 / 2)),
         PlaceOrder ''BUY'' None (JFloat (1 / 100)) (JFloat 0) (JFloat 0) (draw 2 (1 / 2))]
   \<and> held_on ''XAUUSDm''
        (run_calls plain_env no_terminal (init_bridge False None)
           [PlaceOrder ''BUY'' None (JFloat (1 / 100)) (JFloat 0) (JFloat 0) (draw 0 (1 / 2)),
            PlaceOrder ''SELL'' None (JFloat (1 / 100)) (JFloat 0) (JFloat 0) (draw 1 (1 / 2)),
            PlaceOrder ''BUY'' None (JFloat (1 / 100)) (JFloat 0) (JFloat 0) (draw 2 (1 / 2))]) = 3"
proof -
  have h1: "simulation_mode (init_bridge False None)"
    by (simp add: init_bridge_def)
  have h2: "\<not> force_mt5_data plain_env"
    by (simp add: ledger_defs)
  have h3: "list_all (opens_on None)
        [PlaceOrder ''BUY'' None (JFloat (1 / 100)) (JFloat 0) (JFloat 0) (draw 0 (1 / 2)),
         PlaceOrder ''SELL'' None (JFloat (1 / 100)) (JFloat 0) (JFloat 0) (draw 1 (1 / 2)),
         PlaceOrder ''BUY'' None (JFloat (1 / 100)) (JFloat 0) (JFloat 0) (draw 2 (1 / 2))]"
    by simp
  have smb: "symbol_or (init_bridge False None) None = ''XAUUSDm''"
    by (simp add: ledger_defs)
  have none: "held_on ''XAUUSDm'' (init_bridge False None) = 0"
    by (simp add: held_on_def init_bridge_def)
  from place_order_has_no_limit [OF h1 h2, of "OrderFailed (Text [])" "''BUY''" None
      "JFloat 0" "JFloat 0" "JFloat 0" "draw 0 0"
      "[PlaceOrder ''BUY'' None (JFloat (1 / 100)) (JFloat 0) (JFloat 0) (draw 0 (1 / 2)),
        PlaceOrder ''SELL'' None (JFloat (1 / 100)) (JFloat 0) (JFloat 0) (draw 1 (1 / 2)),
        PlaceOrder ''BUY'' None (JFloat (1 / 100)) (JFloat 0) (JFloat 0) (draw 2 (1 / 2))]"
      no_terminal] h3 smb none
  have "held_on ''XAUUSDm''
        (run_calls plain_env no_terminal (init_bridge False None)
           [PlaceOrder ''BUY'' None (JFloat (1 / 100)) (JFloat 0) (JFloat 0) (draw 0 (1 / 2)),
            PlaceOrder ''SELL'' None (JFloat (1 / 100)) (JFloat 0) (JFloat 0) (draw 1 (1 / 2)),
            PlaceOrder ''BUY'' None (JFloat (1 / 100)) (JFloat 0) (JFloat 0) (draw 2 (1 / 2))]) = 3"
    by simp
  with h1 h2 h3 show ?thesis by blast
qed

text \<open>
  C1, as the claim states it, fails: with one position open on XAUUSDm a second
  \<open>place_order\<close> on the same instrument succeeds, and the ledger then holds two.
\<close>

theorem one_position_counterexample:
  "held_on ''XAUUSDm''
     (run_calls plain_env no_terminal (init_bridge False None)
        [PlaceOrder ''BUY'' None (JFloat (1 / 100)) (JFloat 0) (JFloat 0) (draw 0 (1 / 2))]) = 1
   \<and> success (fst (place_order plain_env (OrderFailed (Text []))
        (run_calls plain_env no_terminal (init_bridge False None)
           [PlaceOrder ''BUY'' None (JFloat (1 / 100)) (JFloat 0) (JFloat 0) (draw 0 (1 / 2))])
        ''BUY'' None (JFloat (1 / 100)) (JFloat 0) (JFloat 0) (draw 1 (1 / 2))))
   \<and> held_on ''XAUUSDm''
        (snd (place_order plain_env (OrderFailed (Text []))
           (run_calls plain_env no_terminal (init_bridge False None)
              [PlaceOrder ''BUY'' None (JFloat (1 / 100)) (JFloat 0) (JFloat 0) (draw 0 (1 / 2))])
           ''BUY'' None (JFloat (1 / 100)) (JFloat 0) (JFloat 0) (draw 1 (1 / 2)))) = 2"
  by (simp add: ledger_defs held_on_def)

text \<open>
  C5, as the code has it. \<open>place_order\<close> checks neither stop: in simulation mode without
  strict mode every order is accepted, the stored positions stay, and the new position
  carries the \<open>sl\<close> and \<open>tp\<close> it was given, unchanged, with the fill price as entry.
\<close>

theorem place_order_keeps_stops:
  assumes "simulation_mode st" and "\<not> force_mt5_data env"
  shows "success (fst (place_order env live st action s vol sl_arg tp_arg d))
     \<and> butlast (sim_positions (snd (place_order env live st action s vol sl_arg tp_arg d)))
         = sim_positions st
     \<and> sl (last (sim_positions (snd (place_order env live st action s vol sl_arg tp_arg d))))
         = sl_arg
     \<and> tp (last (sim_positions (snd (place_order env live st action s vol sl_arg tp_arg d))))
         = tp_arg
     \<and> price_open (last (sim_positions (snd (place_order env live st action s vol sl_arg tp_arg d))))
         = (if lower action = ''buy'' then ask (sim_tick st (symbol_or st s) d)
            else bid (sim_tick st (symbol_or st s) d))"
  using assms by (simp add: place_order_sim)

theorem place_order_keeps_stops_witness:
  "simulation_mode (init_bridge False None) \<and> \<not> force_mt5_data plain_env
   \<and> sl (last (sim_positions (snd (place_order plain_env (OrderFailed (Text []))
        (init_bridge False None) ''SELL'' None (JFloat (1 / 100)) (JFloat 2650) (JFloat 2651)
        (draw 0 (1 / 2))))))
       = JFloat 2650
   \<and> tp (last (sim_positions (snd (place_order plain_env (OrderFailed (Text []))
        (init_bridge False None) ''SELL'' None (JFloat (1 / 100)) (JFloat 2650) (JFloat 2651)
        (draw 0 (1 / 2))))))
       = JFloat 2651
   \<and> price_open (last (sim_positions (snd (place_order plain_env (OrderFailed (Text []))
        (init_bridge False None) ''SELL'' None (JFloat (1 / 100)) (JFloat 2650) (JFloat 2651)
        (draw 0 (1 / 2))))))
       = 2650"
proof -
  have h1: "simulation_mode (init_bridge False None)"
    by (simp add: init_bridge_def)
  have h2: "\<not> force_mt5_data plain_env"
    by (simp add: ledger_defs)
  have fill: "(if lower ''SELL'' = ''buy''
               then ask (sim_tick (init_bridge False None)
                           (symbol_or (init_bridge False None) None) (draw 0 (1 / 2)))
               else bid (sim_tick (init_bridge False None)
                           (symbol_or (init_bridge False None) None) (draw 0 (1 / 2)))) = 2650"
    by (simp add: ledger_defs)
  from place_order_keeps_stops [OF h1 h2, of "OrderFailed (Text [])" "''SELL''" None
      "JFloat (1 / 100)" "JFloat 2650" "JFloat 2651" "draw 0 (1 / 2)"] fill h1 h2
  show ?thesis by simp
qed

text \<open>
  C5, as the claim states it, fails: a decision to buy with confidence 0.9 whose stop-loss
  and take-profit are both 0.01 away from the entry at 2650.50 is executed, and the
  position is stored with exactly these two prices. The take-profit distance is below 1.5
  times the stop-loss distance.
\<close>

theorem stops_counterexample:
  "execute_decision plain_env no_terminal (sample_cycle (Raises [])) (init_bridge False None)
       [] tight_buy
     = (([TradeEvent (OrderPlaced 1001 (265050 / 100) ''BUY'')], None),
        \<lparr>connected = False, simulation_mode = True, symbol = ''XAUUSDm'',
         sim_base_price = 2650,
         sim_positions =
           [\<lparr>ticket = 1001, psymbol = ''XAUUSDm'', ptype = ''buy'', volume = JFloat (1 / 100),
             price_open = 265050 / 100, price_current = 265050 / 100,
             sl = JFloat (265049 / 100), tp = JFloat (265051 / 100), profit = 0,
             ptime = 1700000000\<rparr>],
         sim_ticket_counter = 1001\<rparr>)
   \<and> \<bar>265051 / 100 - 265050 / 100\<bar> < (3 / 2) * \<bar>265050 / 100 - 265049 / 100 :: real\<bar>"
  by (simp add: ledger_defs execute_decision_def tight_buy_def sample_cycle_def getitem_def
      dict_get_def)

lemma pop_ticket_find:
  "find (\<lambda>q. ticket q = t) ps = Some p \<Longrightarrow> pop_ticket t ps = Some (p, remove1 p ps)"
proof (induction ps)
  case Nil
  then show ?case by simp
next
  case (Cons q ps)
  show ?case
  proof (cases "ticket q = t")
    case True
    with Cons.prems show ?thesis by simp
  next
    case False
    with Cons.prems have f: "find (\<lambda>q. ticket q = t) ps = Some p" by simp
    then have "ticket p = t" by (auto simp: find_Some_iff)
    with False have "q \<noteq> p" by auto
    with False Cons.IH [OF f] show ?thesis by simp
  qed
qed

lemma mark_to_market_done:
  "mark_to_market t ps = (ps', None) \<Longrightarrow> ps' = map (\<lambda>p. fst (mark_position t p)) ps"
proof (induction ps arbitrary: ps')
  case Nil
  then show ?case by simp
next
  case (Cons q ps)
  obtain q' e where m: "mark_position t q = (q', e)"
    by (cases "mark_position t q")
  obtain rest r where l: "mark_to_market t ps = (rest, r)"
    by (cases "mark_to_market t ps")
  from Cons.prems m l have "e = None" and "r = None" and "ps' = q' # rest"
    by (cases e; simp)+
  with Cons.IH [of rest] m l show ?case by simp
qed

lemma find_marked:
  "find (\<lambda>q. ticket q = t) ps = Some p \<Longrightarrow>
     find (\<lambda>q. ticket q = t) (map (\<lambda>p. fst (mark_position tk p)) ps)
       = Some (fst (mark_position tk p))"
proof (induction ps)
  case Nil
  then show ?case by simp
next
  case (Cons q ps)
  have same: "ticket (fst (mark_position tk q)) = ticket q"
    by (cases "num_val (volume q)") (simp_all add: mark_position_def Let_def)
  from Cons same show ?case
    by (cases "ticket q = t") simp_all
qed

text \<open>
  C3, as the code has it. \<open>close_position\<close> removes the first position with the ticket
  and returns the profit stored on it; nothing else of the bridge changes and no tick is
  read. After a \<open>get_positions\<close> call that ran to its end, the profit returned is the one
  that call marked at its own tick, whatever ticks came later.
\<close>

theorem close_returns_stored_profit:
  assumes "simulation_mode st" and "find (\<lambda>q. ticket q = t) (sim_positions st) = Some p"
  shows "close_position live st t =
           (PositionClosed t (profit p), st\<lparr>sim_positions := remove1 p (sim_positions st)\<rparr>)
     \<and> (get_positions live' st s d = (Inr ps, st1) \<longrightarrow>
          fst (close_position live st1 t) =
            PositionClosed t (profit (fst (mark_position (sim_tick st (symbol_or st s) d) p))))"
proof
  show "close_position live st t =
           (PositionClosed t (profit p), st\<lparr>sim_positions := remove1 p (sim_positions st)\<rparr>)"
    using assms by (simp add: close_position_def pop_ticket_find)
next
  show "get_positions live' st s d = (Inr ps, st1) \<longrightarrow>
          fst (close_position live st1 t) =
            PositionClosed t (profit (fst (mark_position (sim_tick st (symbol_or st s) d) p)))"
  proof
    assume g: "get_positions live' st s d = (Inr ps, st1)"
    define tk where "tk = sim_tick st (symbol_or st s) d"
    obtain ms r where l: "mark_to_market tk (sim_positions st) = (ms, r)"
      by (cases "mark_to_market tk (sim_positions st)")
    from g assms(1) l have r: "r = None" and st1: "st1 = st\<lparr>sim_positions := ms\<rparr>"
      by (cases r; simp add: get_positions_def Let_def tk_def)+
    from l r have "ms = map (\<lambda>p. fst (mark_position tk p)) (sim_positions st)"
      using mark_to_market_done by blast
    with assms(2) have "find (\<lambda>q. ticket q = t) ms = Some (fst (mark_position tk p))"
      using find_marked by blast
    with assms(1) show "fst (close_position live st1 t) =
        PositionClosed t (profit (fst (mark_position (sim_tick st (symbol_or st s) d) p)))"
      by (simp add: st1 close_position_def pop_ticket_find tk_def)
  qed
qed

text \<open>
  A buy of one lot filled at 2650.50 closes with 0 when nothing marked it, and with 50
  after \<open>get_positions\<close> marked it at a bid of 2651.00.
\<close>

theorem close_returns_stored_profit_witness:
  "simulation_mode (run_calls plain_env no_terminal (init_bridge False None)
       [PlaceOrder ''BUY'' None (JFloat 1) (JFloat 0) (JFloat 0) (draw 0 (1 / 2))])
   \<and> close_position (OrderFailed (Text []))
        (run_calls plain_env no_terminal (init_bridge False None)
           [PlaceOrder ''BUY'' None (JFloat 1) (JFloat 0) (JFloat 0) (draw 0 (1 / 2))]) 1001
       = (PositionClosed 1001 0,
          \<lparr>connected = False, simulation_mode = True, symbol = ''XAUUSDm'',
           sim_base_price = 2650, sim_positions = [], sim_ticket_counter = 1001\<rparr>)
   \<and> fst (close_position (OrderFailed (Text []))
        (snd (get_positions []
           (run_calls plain_env no_terminal (init_bridge False None)
              [PlaceOrder ''BUY'' None (JFloat 1) (JFloat 0) (JFloat 0) (draw 0 (1 / 2))])
           None (draw 1 (1 / 2)))) 1001)
       = PositionClosed 1001 50"
proof -
  define st where "st = run_calls plain_env no_terminal (init_bridge False None)
       [PlaceOrder ''BUY'' None (JFloat 1) (JFloat 0) (JFloat 0) (draw 0 (1 / 2))]"
  define p where "p = \<lparr>ticket = 1001, psymbol = ''XAUUSDm'', ptype = ''buy'', volume = JFloat 1,
       price_open = 265050 / 100, price_current = 265050 / 100, sl = JFloat 0, tp = JFloat 0,
       profit = 0, ptime = 1700000000\<rparr>"
  have st: "st = \<lparr>connected = False, simulation_mode = True, symbol = ''XAUUSDm'',
       sim_base_price = 2650, sim_positions = [p], sim_ticket_counter = 1001\<rparr>"
    by (simp add: st_def p_def ledger_defs)
  have h1: "simulation_mode st"
    by (simp add: st)
  have h2: "find (\<lambda>q. ticket q = 1001) (sim_positions st) = Some p"
    by (simp add: st p_def)
  have g: "get_positions [] st None (draw 1 (1 / 2))
      = (Inr (fst (mark_to_market (sim_tick st (symbol_or st None) (draw 1 (1 / 2))) [p])),
         snd (get_positions [] st None (draw 1 (1 / 2))))"
    by (simp add: st p_def ledger_defs)
  have marked: "profit (fst (mark_position (sim_tick st (symbol_or st None) (draw 1 (1 / 2))) p))
      = 50"
    by (simp add: st p_def ledger_defs)
  note facts = close_returns_stored_profit [OF h1 h2, of "OrderFailed (Text [])" "[]" None
      "draw 1 (1 / 2)" "fst (mark_to_market (sim_tick st (symbol_or st None) (draw 1 (1 / 2))) [p])"
      "snd (get_positions [] st None (draw 1 (1 / 2)))"]
  from facts have c1: "close_position (OrderFailed (Text [])) st 1001
      = (PositionClosed 1001 0, st\<lparr>sim_positions := remove1 p (sim_positions st)\<rparr>)"
    by (simp add: p_def)
  from facts g marked
  have c2: "fst (close_position (OrderFailed (Text []))
        (snd (get_positions [] st None (draw 1 (1 / 2)))) 1001) = PositionClosed 1001 50"
    by simp
  from h1 c1 c2 show ?thesis
    unfolding st_def [symmetric] by (simp add: st)
qed

text \<open>
  C3, as the claim states it, fails: a buy of one lot filled at 2650.50 is marked at a bid
  of 2651.00 (profit 50). The next tick has a bid of 2653.00, against which the profit is
  250; \<open>close_position\<close> still returns 50.
\<close>

theorem stale_profit_counterexample:
  "get_tick (Inl [])
       (run_calls plain_env no_terminal (init_bridge False None)
          [PlaceOrder ''BUY'' None (JFloat 1) (JFloat 0) (JFloat 0) (draw 0 (1 / 2)),
           GetPositions None (draw 1 (1 / 2))])
       None \<lparr>u_price = 3, u_spread = 1 / 2, now = 1700000060\<rparr>
     = Inr \<lparr>bid = 2653, ask = 265350 / 100, tick_time = 1700000060, tick_symbol = ''XAUUSDm''\<rparr>
   \<and> map profit (fst (mark_to_market
        \<lparr>bid = 2653, ask = 265350 / 100, tick_time = 1700000060, tick_symbol = ''XAUUSDm''\<rparr>
        (sim_positions (run_calls plain_env no_terminal (init_bridge False None)
          [PlaceOrder ''BUY'' None (JFloat 1) (JFloat 0) (JFloat 0) (draw 0 (1 / 2)),
           GetPositions None (draw 1 (1 / 2))])))) = [250]
   \<and> fst (close_position (OrderFailed (Text []))
        (run_calls plain_env no_terminal (init_bridge False None)
          [PlaceOrder ''BUY'' None (JFloat 1) (JFloat 0) (JFloat 0) (draw 0 (1 / 2)),
           GetPositions None (draw 1 (1 / 2))]) 1001) = PositionClosed 1001 50"
  by (simp add: ledger_defs get_tick_def)

lemma mark_position_twice: "mark_position t (fst (mark_position t p)) = mark_position t p"
  by (cases "num_val (volume p)") (simp_all add: mark_position_def Let_def)

lemma mark_to_market_twice: "mark_to_market t (fst (mark_to_market t ps)) = mark_to_market t ps"
proof (induction ps)
  case Nil
  show ?case by simp
next
  case (Cons p ps)
  obtain p' e where m: "mark_position t p = (p', e)"
    by (cases "mark_position t p")
  then have again: "mark_position t p' = (p', e)"
    using mark_position_twice [of t p] by simp
  show ?case
  proof (cases e)
    case (Some x)
    with m again show ?thesis by simp
  next
    case None
    obtain ps' r where l: "mark_to_market t ps = (ps', r)"
      by (cases "mark_to_market t ps")
    with Cons.IH have "mark_to_market t ps' = (ps', r)" by simp
    with m again None l show ?thesis by simp
  qed
qed

text \<open>
  C7. Marking is idempotent: a position marked to a tick and marked to the same tick
  again has the same \<open>price_current\<close> and \<open>profit\<close> (and the same outcome) as after the
  first marking, and a second \<open>get_positions\<close> with the same tick draw returns the same
  list and leaves the same bridge as the first. The marked position is a function of the
  position and the tick alone.
\<close>

theorem mark_to_market_idempotent:
  "mark_position t (fst (mark_position t p)) = mark_position t p
   \<and> get_positions live (snd (get_positions live st s d)) s d = get_positions live st s d"
proof
  show "mark_position t (fst (mark_position t p)) = mark_position t p"
    by (rule mark_position_twice)
next
  show "get_positions live (snd (get_positions live st s d)) s d = get_positions live st s d"
  proof (cases "simulation_mode st")
    case False
    then show ?thesis by (simp add: get_positions_def)
  next
    case True
    define t where "t = sim_tick st (symbol_or st s) d"
    obtain ps r where l: "mark_to_market t (sim_positions st) = (ps, r)"
      by (cases "mark_to_market t (sim_positions st)")
    then have again: "mark_to_market t ps = (ps, r)"
      using mark_to_market_twice [of t "sim_positions st"] by simp
    have same: "sim_tick (st\<lparr>sim_positions := ps\<rparr>) (symbol_or (st\<lparr>sim_positions := ps\<rparr>) s) d = t"
      by (simp add: t_def sim_tick_def symbol_or_def split: option.splits)
    show ?thesis
      using True l again same
      by (cases r) (simp_all add: get_positions_def Let_def t_def [symmetric])
  qed
qed

theorem mark_to_market_idempotent_witness:
  "fst (get_positions []
          (run_calls plain_env no_terminal (init_bridge False None)
             [PlaceOrder ''BUY'' None (JFloat 1) (JFloat 0) (JFloat 0) (draw 0 (1 / 2)),
              GetPositions None (draw 1 (1 / 2))])
          None (draw 1 (1 / 2)))
     = Inr [\<lparr>ticket = 1001, psymbol = ''XAUUSDm'', ptype = ''buy'', volume = JFloat 1,
             price_open = 265050 / 100, price_current = 2651, sl = JFloat 0, tp = JFloat 0,
             profit = 50, ptime = 1700000000\<rparr>]
   \<and> fst (get_positions []
          (run_calls plain_env no_terminal (init_bridge False None)
             [PlaceOrder ''BUY'' None (JFloat 1) (JFloat 0) (JFloat 0) (draw 0 (1 / 2))])
          None (draw 1 (1 / 2)))
     = Inr [\<lparr>ticket = 1001, psymbol = ''XAUUSDm'', ptype = ''buy'', volume = JFloat 1,
             price_open = 265050 / 100, price_current = 2651, sl = JFloat 0, tp = JFloat 0,
             profit = 50, ptime = 1700000000\<rparr>]"
proof -
  define st where "st = run_calls plain_env no_terminal (init_bridge False None)
       [PlaceOrder ''BUY'' None (JFloat 1) (JFloat 0) (JFloat 0) (draw 0 (1 / 2))]"
  have once: "fst (get_positions [] st None (draw 1 (1 / 2)))
     = Inr [\<lparr>ticket = 1001, psymbol = ''XAUUSDm'', ptype = ''buy'', volume = JFloat 1,
             price_open = 265050 / 100, price_current = 2651, sl = JFloat 0, tp = JFloat 0,
             profit = 50, ptime = 1700000000\<rparr>]"
    by (simp add: st_def ledger_defs)
  have twice: "get_positions [] (snd (get_positions [] st None (draw 1 (1 / 2)))) None
       (draw 1 (1 / 2)) = get_positions [] st None (draw 1 (1 / 2))"
    using mark_to_market_idempotent [of _ _ "[]" st None "draw 1 (1 / 2)"] by blast
  have "run_calls plain_env no_terminal (init_bridge False None)
             [PlaceOrder ''BUY'' None (JFloat 1) (JFloat 0) (JFloat 0) (draw 0 (1 / 2)),
              GetPositions None (draw 1 (1 / 2))]
          = snd (get_positions [] st None (draw 1 (1 / 2)))"
    by (simp add: st_def no_terminal_def)
  with once twice show ?thesis
    unfolding st_def [symmetric] by simp
qed

section \<open>Properties of the synthetic candle source\<close>

lemma round_half_even_of_int: "round_half_even (of_int n) = n"
  by (simp add: round_half_even_def)

lemma round2_idem: "round2 (round2 x) = round2 x"
  by (simp add: round2_def round_half_even_of_int)

lemma candle_loop_fst:
  "fst (candle_loop t_now cnt tfm dr i (Suc k) price) =
     \<lparr>c_time = t_now - (cnt - int i) * tfm * 60, c_open = round2 price,
      c_high = round2 (max (round2 price) (round2 (price + g_change (dr i))) + \<bar>g_high (dr i)\<bar>),
      c_low = round2 (min (round2 price) (round2 (price + g_change (dr i))) - \<bar>g_low (dr i)\<bar>),
      c_close = round2 (price + g_change (dr i)), c_volume = r_vol (dr i)\<rparr>
     # fst (candle_loop t_now cnt tfm dr (Suc i) k (round2 (price + g_change (dr i))))"
  by (simp add: Let_def case_prod_beta)

lemma candle_loop_snd:
  "snd (candle_loop t_now cnt tfm dr i (Suc k) price) =
     snd (candle_loop t_now cnt tfm dr (Suc i) k (round2 (price + g_change (dr i))))"
  by (simp add: Let_def case_prod_beta)

lemma candle_loop_length: "length (fst (candle_loop t_now cnt tfm dr i k price)) = k"
proof (induction k arbitrary: i price)
  case 0
  show ?case by simp
next
  case (Suc k)
  then show ?case by (simp only: candle_loop_fst) simp
qed

lemma candle_loop_first:
  "0 < k \<Longrightarrow> c_open (hd (fst (candle_loop t_now cnt tfm dr i k price))) = round2 price"
  by (cases k) (simp_all only: candle_loop_fst, simp_all)

lemma candle_loop_closes:
  "c \<in> set (fst (candle_loop t_now cnt tfm dr i k price)) \<Longrightarrow> round2 (c_close c) = c_close c"
proof (induction k arbitrary: i price)
  case 0
  then show ?case by simp
next
  case (Suc k)
  from Suc.prems
  have "c_close c = round2 (price + g_change (dr i))
      \<or> c \<in> set (fst (candle_loop t_now cnt tfm dr (Suc i) k (round2 (price + g_change (dr i)))))"
    by (simp only: candle_loop_fst) auto
  then show ?case
    using Suc.IH by (auto simp: round2_idem)
qed

lemma candle_loop_final:
  "0 < k \<Longrightarrow> snd (candle_loop t_now cnt tfm dr i k price)
      = c_close (last (fst (candle_loop t_now cnt tfm dr i k price)))"
proof (induction k arbitrary: i price)
  case 0
  then show ?case by simp
next
  case (Suc k)
  show ?case
  proof (cases k)
    case 0
    then show ?thesis by (simp only: candle_loop_fst candle_loop_snd) simp
  next
    case (Suc k')
    then have pos: "0 < k" by simp
    have ne: "fst (candle_loop t_now cnt tfm dr (Suc i) k (round2 (price + g_change (dr i)))) \<noteq> []"
      using candle_loop_length [of t_now cnt tfm dr "Suc i" k "round2 (price + g_change (dr i))"] pos
      by auto
    from Suc.IH [OF pos, of "Suc i" "round2 (price + g_change (dr i))"] ne
    show ?thesis by (simp only: candle_loop_fst candle_loop_snd) simp
  qed
qed

lemma candle_loop_chain:
  "Suc j < k \<Longrightarrow>
     c_open (fst (candle_loop t_now cnt tfm dr i k price) ! Suc j)
       = c_close (fst (candle_loop t_now cnt tfm dr i k price) ! j)"
proof (induction k arbitrary: i price j)
  case 0
  then show ?case by simp
next
  case (Suc k)
  define nxt where "nxt = round2 (price + g_change (dr i))"
  define rest where "rest = fst (candle_loop t_now cnt tfm dr (Suc i) k nxt)"
  have len: "length rest = k"
    by (simp add: rest_def candle_loop_length)
  show ?case
  proof (cases j)
    case 0
    with Suc.prems have "0 < k" by simp
    then have "c_open (hd rest) = round2 nxt"
      unfolding rest_def by (rule candle_loop_first)
    moreover have "rest \<noteq> []" using len \<open>0 < k\<close> by auto
    ultimately have "c_open (rest ! 0) = nxt"
      by (simp add: hd_conv_nth nxt_def round2_idem)
    with 0 show ?thesis
      by (simp only: candle_loop_fst) (simp add: rest_def nxt_def)
  next
    case (Suc j')
    with Suc.prems have "Suc j' < k" by simp
    from Suc.IH [OF this, of "Suc i" nxt] Suc show ?thesis
      by (simp only: candle_loop_fst) (simp add: nxt_def)
  qed
qed

text \<open>
  C6. The candles of one call of \<open>_simulate_candles\<close> are as many as asked for and
  chain: each opens at the close of the one before. The running price is left at the
  last close, so the first candle of any later call opens at the last close of this one.
\<close>

theorem candles_chain:
  assumes "simulate_candles st n tf t_now dr = (cs, st')"
  shows "length cs = nat n
     \<and> (\<forall>i. 0 < i \<and> i < length cs \<longrightarrow> c_open (cs ! i) = c_close (cs ! (i - 1)))
     \<and> (0 < n \<longrightarrow> sim_base_price st' = c_close (last cs)
          \<and> (\<forall>m tf' t_now' dr'. 0 < m \<longrightarrow>
                c_open (hd (fst (simulate_candles st' m tf' t_now' dr'))) = c_close (last cs)))"
proof -
  define r where "r = candle_loop t_now n (tf_minutes tf) dr 0 (nat n) (sim_base_price st)"
  from assms have cs: "cs = fst r" and st': "st' = st\<lparr>sim_base_price := snd r\<rparr>"
    by (auto simp: simulate_candles_def r_def Let_def split: prod.splits)
  have len: "length cs = nat n"
    by (simp add: cs r_def candle_loop_length)
  have chain: "c_open (cs ! i) = c_close (cs ! (i - 1))" if "0 < i \<and> i < length cs" for i
  proof -
    from that obtain j where j: "i = Suc j" by (cases i) auto
    with that len have "Suc j < nat n" by simp
    then show ?thesis
      unfolding cs r_def j by (simp add: candle_loop_chain)
  qed
  have nxt: "sim_base_price st' = c_close (last cs)
      \<and> (\<forall>m tf' t_now' dr'. 0 < m \<longrightarrow>
            c_open (hd (fst (simulate_candles st' m tf' t_now' dr'))) = c_close (last cs))"
    if "0 < n"
  proof -
    from that have pos: "0 < nat n" by simp
    have base: "sim_base_price st' = c_close (last cs)"
      using candle_loop_final [OF pos] by (simp add: st' cs r_def)
    have rounded: "round2 (c_close (last cs)) = c_close (last cs)"
    proof -
      have "cs \<noteq> []" using len pos by auto
      then have "last cs \<in> set cs" by simp
      then show ?thesis unfolding cs r_def by (rule candle_loop_closes)
    qed
    have "c_open (hd (fst (simulate_candles st' m tf' t_now' dr'))) = c_close (last cs)"
      if "0 < m" for m tf' t_now' dr'
    proof -
      from that have "0 < nat m" by simp
      from candle_loop_first [OF this] base rounded show ?thesis
        by (simp add: simulate_candles_def Let_def case_prod_beta)
    qed
    with base show ?thesis by blast
  qed
  from len chain nxt show ?thesis by blast
qed

theorem candles_chain_witness:
  "length (fst (simulate_candles (init_bridge False None) 3 ''M5'' 1700000000 steady)) = 3
   \<and> c_open (fst (simulate_candles (init_bridge False None) 3 ''M5'' 1700000000 steady) ! 1)
       = c_close (fst (simulate_candles (init_bridge False None) 3 ''M5'' 1700000000 steady) ! 0)
   \<and> c_open (fst (simulate_candles (init_bridge False None) 3 ''M5'' 1700000000 steady) ! 2)
       = c_close (fst (simulate_candles (init_bridge False None) 3 ''M5'' 1700000000 steady) ! 1)
   \<and> map c_close (fst (simulate_candles (init_bridge False None) 3 ''M5'' 1700000000 steady))
       = [265125 / 100, 265250 / 100, 265375 / 100]
   \<and> c_open (hd (fst (simulate_candles
          (snd (simulate_candles (init_bridge False None) 3 ''M5'' 1700000000 steady))
          2 ''M1'' 1700000300 steady))) = 265375 / 100"
proof -
  define r where "r = simulate_candles (init_bridge False None) 3 ''M5'' 1700000000 steady"
  have e: "simulate_candles (init_bridge False None) 3 ''M5'' 1700000000 steady = (fst r, snd r)"
    by (simp add: r_def)
  have closes: "map c_close (fst r) = [265125 / 100, 265250 / 100, 265375 / 100]"
    unfolding r_def by code_simp
  then have ne: "fst r \<noteq> []" by auto
  have lst: "c_close (last (fst r)) = 265375 / 100"
    using closes ne by (simp add: last_map [symmetric])
  note facts = candles_chain [OF e]
  from facts have len: "length (fst r) = 3" by simp
  from facts len have c1: "c_open (fst r ! 1) = c_close (fst r ! 0)" by simp
  from facts len have c2: "c_open (fst r ! 2) = c_close (fst r ! 1)" by simp
  from facts have "0 < (2::int) \<longrightarrow>
      c_open (hd (fst (simulate_candles (snd r) 2 ''M1'' 1700000300 steady))) = c_close (last (fst r))"
    by simp
  with lst have nxt: "c_open (hd (fst (simulate_candles (snd r) 2 ''M1'' 1700000300 steady)))
      = 265375 / 100"
    by simp
  from len c1 c2 closes nxt show ?thesis
    unfolding r_def by blast
qed

section \<open>Properties of the start in strict mode\<close>

lemmas startup_defs =
  startup_def import_mt5_mcp_def lifespan_def initialize_def init_bridge_def Let_def

lemma startup_strict:
  assumes "force_mt5_data env" and "startup env importable term = Inr st"
  shows "importable \<and> mt5_initialize term \<and> \<not> simulation_mode st \<and> connected st"
proof (cases importable)
  case False
  with assms show ?thesis by (simp add: startup_defs)
next
  case True
  with assms show ?thesis
    by (auto simp: startup_defs split: option.splits if_splits prod.splits)
qed

text \<open>
  C9, as the code has it. In strict mode the application starts only with the package
  imported, the terminal initialised and the bridge connected outside simulation mode;
  with the package missing or the terminal not initialising, the start ends in an
  exception. Without strict mode a missing package gives the simulation, connected, while
  a terminal that does not initialise lets the application start with a bridge that is
  neither connected nor in simulation mode.
\<close>

theorem strict_mode_startup:
  "(force_mt5_data env \<and> (\<not> importable \<or> \<not> mt5_initialize term)
      \<longrightarrow> (\<exists>e. startup env importable term = Inl e))
   \<and> (force_mt5_data env \<and> startup env importable term = Inr st
      \<longrightarrow> importable \<and> mt5_initialize term \<and> \<not> simulation_mode st \<and> connected st)
   \<and> (\<not> force_mt5_data env \<and> \<not> importable
      \<longrightarrow> (\<exists>st'. startup env importable term = Inr st' \<and> simulation_mode st' \<and> connected st'))
   \<and> (\<not> force_mt5_data env \<and> importable \<and> MT5_LOGIN_int env \<noteq> None \<and> \<not> mt5_initialize term
      \<longrightarrow> (\<exists>st'. startup env importable term = Inr st' \<and> \<not> simulation_mode st'
                 \<and> \<not> connected st'))"
proof -
  have fails: "\<exists>e. startup env importable term = Inl e"
    if a: "force_mt5_data env \<and> (\<not> importable \<or> \<not> mt5_initialize term)"
  proof (cases "startup env importable term")
    case (Inl e)
    then show ?thesis by blast
  next
    case (Inr st')
    with a startup_strict [of env importable "term" st'] show ?thesis by blast
  qed
  have live: "importable \<and> mt5_initialize term \<and> \<not> simulation_mode st \<and> connected st"
    if "force_mt5_data env \<and> startup env importable term = Inr st"
    using that startup_strict by blast
  have sim: "\<exists>st'. startup env importable term = Inr st' \<and> simulation_mode st' \<and> connected st'"
    if "\<not> force_mt5_data env \<and> \<not> importable"
    using that by (simp add: startup_defs)
  have neither: "\<exists>st'. startup env importable term = Inr st' \<and> \<not> simulation_mode st'
      \<and> \<not> connected st'"
    if "\<not> force_mt5_data env \<and> importable \<and> MT5_LOGIN_int env \<noteq> None \<and> \<not> mt5_initialize term"
    using that by (auto simp: startup_defs)
  from fails live sim neither show ?thesis by blast
qed

theorem strict_mode_startup_witness:
  "force_mt5_data strict_env \<and> \<not> force_mt5_data plain_env
   \<and> startup strict_env False dead_terminal = Inl ImportError
   \<and> startup strict_env True dead_terminal = Inl StrictModeError
   \<and> (\<exists>st'. startup plain_env False dead_terminal = Inr st' \<and> simulation_mode st' \<and> connected st')
   \<and> (\<exists>st'. startup plain_env True dead_terminal = Inr st' \<and> \<not> simulation_mode st'
          \<and> \<not> connected st')"
proof -
  have h1: "force_mt5_data strict_env"
    by (simp add: strict_env_def ledger_defs)
  have h2: "\<not> force_mt5_data plain_env"
    by (simp add: ledger_defs)
  have h3: "MT5_LOGIN_int plain_env \<noteq> None \<and> \<not> mt5_initialize dead_terminal"
    by (simp add: plain_env_def dead_terminal_def)
  have e1: "startup strict_env False dead_terminal = Inl ImportError"
    using h1 by (simp add: startup_defs)
  have e2: "startup strict_env True dead_terminal = Inl StrictModeError"
    using h1 by (simp add: startup_defs strict_env_def plain_env_def dead_terminal_def)
  from strict_mode_startup [of plain_env False dead_terminal] h2
  have w3: "\<exists>st'. startup plain_env False dead_terminal = Inr st' \<and> simulation_mode st'
      \<and> connected st'"
    by blast
  from strict_mode_startup [of plain_env True dead_terminal] h2 h3
  have w4: "\<exists>st'. startup plain_env True dead_terminal = Inr st' \<and> \<not> simulation_mode st'
      \<and> \<not> connected st'"
    by blast
  from strict_mode_startup [of strict_env False dead_terminal] h1
  have "\<exists>e. startup strict_env False dead_terminal = Inl e"
    by blast
  with h1 h2 e1 e2 w3 w4 show ?thesis by blast
qed

text \<open>
  C9, as the claim states it, fails in its second half: without strict mode, with the
  package installed and a terminal that does not initialise, the application starts with
  a bridge that is not in simulation mode, and \<open>get_rates\<close> on it returns the terminal's
  (empty) answer instead of synthetic candles.
\<close>

theorem no_fallback_counterexample:
  "\<not> force_mt5_data plain_env
   \<and> startup plain_env True dead_terminal
       = Inr \<lparr>connected = False, simulation_mode = False, symbol = ''XAUUSDm'',
              sim_base_price = 2650, sim_positions = [], sim_ticket_counter = 1000\<rparr>
   \<and> fst (get_rates []
            \<lparr>connected = False, simulation_mode = False, symbol = ''XAUUSDm'',
             sim_base_price = 2650, sim_positions = [], sim_ticket_counter = 1000\<rparr>
            ''M5'' 200 1700000000 steady) = []"
  by (simp add: startup_defs ledger_defs dead_terminal_def get_rates_def)

section \<open>Properties of the oracle adapter\<close>

lemmas agent_defs =
  analyze_def default_decision_def getitem_def dict_get_def setdefault_def format_history_def
  record_decision_def clean_markdown_def strip_def is_space_def ready_agent_def
  sample_loads_def low_buy_text_def vague_loads_def vague_hold_text_def dq_def plain_env_def
  Let_def

text \<open>
  C4. The property is that every failure of the oracle call ends in the default decision
  (\<open>DO_NOTHING\<close>, confidence 0.0, a text that describes the failure) and that nothing
  reaches the caller. The code does this for an exception of the client that is no
  \<open>JSONDecodeError\<close> (a time-out, first line below) and for a text that does not decode
  (second line). It does not when the client itself raises a \<open>JSONDecodeError\<close>: the
  handler reads the unbound \<open>response_text\<close> and \<open>UnboundLocalError\<close> leaves
  \<open>analyze\<close> (third line). Nor does it for an answer whose confidence is a word: the
  answer is returned as decoded and recorded (fourth line), and the next call raises
  \<open>ValueError\<close> while it formats the history, before the oracle is asked (fifth line).
\<close>

theorem analyze_failure_escapes:
  "analyze plain_env sample_loads ''2023-11-14T22:13:20'' ready_agent
       (Raises ''The read operation timed out'')
     = (Inr (default_decision ''Agent error: The read operation timed out''), ready_agent)
   \<and> analyze plain_env sample_loads ''2023-11-14T22:13:20'' ready_agent
        (Response (Some ''I think we should buy.''))
       = (Inr (default_decision (''Failed to parse agent response: ''
                  @ ''Expecting value: line 1 column 1 (char 0)''
                  @ ''. Raw: I think we should buy.'')), ready_agent)
   \<and> analyze plain_env sample_loads ''2023-11-14T22:13:20'' ready_agent
        (RaisesDecodeError ''Expecting value: line 1 column 1 (char 0)'')
       = (Inl UnboundLocalError, ready_agent)
   \<and> analyze plain_env vague_loads ''2023-11-14T22:13:20'' ready_agent
        (Response (Some vague_hold_text))
       = (Inr [(''action'', JStr ''HOLD''), (''confidence'', JStr ''high''),
               (''reasoning'', JStr ''No reasoning provided''), (''sl'', JNull), (''tp'', JNull),
               (''volume'', JFloat (1 / 100))],
          \<lparr>client = True,
           decision_history = [\<lparr>h_time = ''2023-11-14T22:13:20'', h_action = JStr ''HOLD'',
                                h_confidence = JStr ''high''\<rparr>]\<rparr>)
   \<and> analyze plain_env vague_loads ''2023-11-14T22:13:30''
        \<lparr>client = True,
         decision_history = [\<lparr>h_time = ''2023-11-14T22:13:20'', h_action = JStr ''HOLD'',
                              h_confidence = JStr ''high''\<rparr>]\<rparr>
        (Response (Some vague_hold_text))
       = (Inl ValueError,
          \<lparr>client = True,
           decision_history = [\<lparr>h_time = ''2023-11-14T22:13:20'', h_action = JStr ''HOLD'',
                                h_confidence = JStr ''high''\<rparr>]\<rparr>)"
  by (simp add: agent_defs)

section \<open>Properties of the agent cycle\<close>

lemma get_rates_frame:
  "sim_positions (snd (get_rates live st tf n t_now dr)) = sim_positions st
   \<and> simulation_mode (snd (get_rates live st tf n t_now dr)) = simulation_mode st"
  by (simp add: get_rates_def simulate_candles_def Let_def case_prod_beta)

lemma get_positions_empty:
  assumes "simulation_mode st" and "sim_positions st = []"
  shows "get_positions live st s d = (Inr [], st)"
proof -
  have "st\<lparr>sim_positions := []\<rparr> = st"
    using assms(2) by (cases st) simp
  with assms show ?thesis
    by (simp add: get_positions_def Let_def)
qed

text \<open>
  What step 3 does with a decision to buy or sell whose confidence is a number: below 0.7
  nothing, from 0.7 on one \<open>place_order\<close> call.
\<close>

lemma execute_decision_gate:
  assumes "getitem decision ''action'' = Inr a" and "a = JStr ''BUY'' \<or> a = JStr ''SELL''"
    and "getitem decision ''confidence'' = Inr c" and "num_val c = Some x"
  shows "execute_decision env la w st positions decision =
           (if x < 7 / 10 then (([], None), st)
            else (([TradeEvent (fst (place_order env (live_order la) st
                      (case a of JStr act \<Rightarrow> act | _ \<Rightarrow> []) None
                      (dict_get decision ''volume'' (JFloat (1 / 100)))
                      (dict_get decision ''sl'' (JFloat 0))
                      (dict_get decision ''tp'' (JFloat 0)) (w_order w)))], None),
                  snd (place_order env (live_order la) st
                      (case a of JStr act \<Rightarrow> act | _ \<Rightarrow> []) None
                      (dict_get decision ''volume'' (JFloat (1 / 100)))
                      (dict_get decision ''sl'' (JFloat 0))
                      (dict_get decision ''tp'' (JFloat 0)) (w_order w))))"
  using assms by (auto simp: execute_decision_def Let_def)

text \<open>
  C2. When the context is gathered and the oracle adapter returns a decision to buy or
  sell whose confidence is below 0.7, the cycle broadcasts the \<open>reasoning\<close> event and
  nothing else, makes no \<open>place_order\<close> call and leaves the bridge as it was after the
  context was gathered; the step that executes the decision changes nothing.
\<close>

theorem low_confidence_no_order:
  assumes ctx: "get_positions (live_positions la)
                  (snd (get_rates (live_rates la) st ''M5'' 50 (w_now w) (w_candles w)))
                  None (w_mark w) = (Inr positions, st2)"
    and acc: "get_account_info env (live_account la) st2 = Inr account_info"
    and dec: "analyze env loads (w_stamp w) ag (w_oracle w) = (Inr decision, ag')"
    and act: "getitem decision ''action'' = Inr a" "a = JStr ''BUY'' \<or> a = JStr ''SELL''"
    and rsn: "getitem decision ''reasoning'' = Inr r"
    and cnf: "getitem decision ''confidence'' = Inr c" "num_val c = Some x" "x < 7 / 10"
  shows "execute_decision env la w st2 positions decision = (([], None), st2)
     \<and> run_agent_cycle env loads la w st ag = (([Reasoning a r c], None), st2, ag')"
proof -
  have step: "execute_decision env la w st2 positions decision = (([], None), st2)"
    using execute_decision_gate [OF act cnf(1) cnf(2)] cnf(3) by simp
  have "run_agent_cycle env loads la w st ag = (([Reasoning a r c], None), st2, ag')"
    using ctx acc dec act(1) rsn cnf(1) step
    by (simp add: run_agent_cycle_def Let_def)
  with step show ?thesis by simp
qed

text \<open>
  The oracle answers \<open>{"action": "BUY", "confidence": 0.65}\<close> on an empty simulated
  ledger: one \<open>reasoning\<close> event, no order, no position.
\<close>

theorem low_confidence_no_order_witness:
  "run_agent_cycle plain_env sample_loads no_terminal
       (sample_cycle (Response (Some low_buy_text))) (init_bridge False None) ready_agent
     = (([Reasoning (JStr ''BUY'') (JStr ''No reasoning provided'') (JFloat (65 / 100))], None),
        snd (get_rates [] (init_bridge False None) ''M5'' 50 1700000000 steady),
        \<lparr>client = True,
         decision_history = [\<lparr>h_time = ''2023-11-14T22:13:20'', h_action = JStr ''BUY'',
                              h_confidence = JFloat (65 / 100)\<rparr>]\<rparr>)
   \<and> sim_positions (snd (get_rates [] (init_bridge False None) ''M5'' 50 1700000000 steady)) = []
   \<and> (65 / 100 :: real) < 7 / 10"
proof -
  define w where "w = sample_cycle (Response (Some low_buy_text))"
  define st2 where "st2 = snd (get_rates [] (init_bridge False None) ''M5'' 50 1700000000 steady)"
  define decision where "decision =
     [(''action'', JStr ''BUY''), (''confidence'', JFloat (65 / 100)),
      (''reasoning'', JStr ''No reasoning provided''), (''sl'', JNull), (''tp'', JNull),
      (''volume'', JFloat (1 / 100))]"
  define ag' where "ag' = \<lparr>client = True,
         decision_history = [\<lparr>h_time = ''2023-11-14T22:13:20'', h_action = JStr ''BUY'',
                              h_confidence = JFloat (65 / 100)\<rparr>]\<rparr>"
  have empty: "sim_positions st2 = []" and sim: "simulation_mode st2"
    by (simp_all add: st2_def get_rates_frame init_bridge_def)
  have ctx: "get_positions (live_positions no_terminal)
                  (snd (get_rates (live_rates no_terminal) (init_bridge False None) ''M5'' 50
                          (w_now w) (w_candles w)))
                  None (w_mark w) = (Inr [], st2)"
    using get_positions_empty [OF sim empty]
    by (simp add: w_def sample_cycle_def no_terminal_def st2_def)
  have acc: "get_account_info plain_env (live_account no_terminal) st2
      = Inr (Inr \<lparr>login = 12345678, balance = 10000, equity = 10000, margin = 0,
                   free_margin = 10000, margin_level = 0, acc_profit = 0,
                   server = ''SimulationServer'', currency = ''USD'', trade_mode = ''demo''\<rparr>)"
    using sim empty by (simp add: get_account_info_def plain_env_def getenv_def)
  have dec: "analyze plain_env sample_loads (w_stamp w) ready_agent (w_oracle w)
      = (Inr decision, ag')"
    by (simp add: w_def sample_cycle_def decision_def ag'_def agent_defs)
  have act: "getitem decision ''action'' = Inr (JStr ''BUY'')"
    and rsn: "getitem decision ''reasoning'' = Inr (JStr ''No reasoning provided'')"
    and cnf: "getitem decision ''confidence'' = Inr (JFloat (65 / 100))"
    by (simp_all add: decision_def getitem_def)
  have low: "(65 / 100 :: real) < 7 / 10"
    by simp
  from low_confidence_no_order [OF ctx acc dec act _ rsn cnf _ low]
  have "run_agent_cycle plain_env sample_loads no_terminal w (init_bridge False None) ready_agent
      = (([Reasoning (JStr ''BUY'') (JStr ''No reasoning provided'') (JFloat (65 / 100))], None),
         st2, ag')"
    by simp
  with empty low show ?thesis
    unfolding w_def st2_def ag'_def by simp
qed

section \<open>Properties of the fan-out\<close>






end
